theory Spec2Isabelle
  imports Complex_Main
begin

section \<open>Tensors\<close>

text \<open>
  A torch tensor is a shape together with its elements in row-major (contiguous) order.
  The element type stands for the dtype: \<open>real tensor\<close> for a float tensor,
  \<open>int tensor\<close> for a long tensor. Floats are idealised as reals; the one float
  value that matters to control and has no real counterpart, the \<open>nan\<close>/\<open>inf\<close>
  of a division by zero, is kept apart wherever a reduction can produce it.
\<close>

text \<open>
  The exceptions of the model. \<open>RankError\<close> marks a tensor whose rank is not the
  one the source's comments give it: torch raises there or goes on with slices of another
  rank; the model stops.
\<close>

datatype error = ValueError | ZeroDivisionError | IndexError | RuntimeError | TypeError | RankError

record 'a tensor =
  shape :: "nat list"
  data :: "'a list"

definition numel :: "'a tensor \<Rightarrow> nat" where
  "numel x = prod_list (shape x)"

definition wf_tensor :: "'a tensor \<Rightarrow> bool" where
  "wf_tensor x = (length (data x) = numel x)"

text \<open>Element access by full index, for tensors of rank 2, 3 and 4.\<close>

definition at2 :: "'a tensor \<Rightarrow> nat \<Rightarrow> nat \<Rightarrow> 'a" where
  "at2 x i j = data x ! (i * (shape x ! 1) + j)"

definition at3 :: "'a tensor \<Rightarrow> nat \<Rightarrow> nat \<Rightarrow> nat \<Rightarrow> 'a" where
  "at3 x i j k = data x ! ((i * (shape x ! 1) + j) * (shape x ! 2) + k)"

definition at4 :: "'a tensor \<Rightarrow> nat \<Rightarrow> nat \<Rightarrow> nat \<Rightarrow> nat \<Rightarrow> 'a" where
  "at4 x i j k l =
     data x ! (((i * (shape x ! 1) + j) * (shape x ! 2) + k) * (shape x ! 3) + l)"

text \<open>
  \<^verbatim>\<open>x.permute(0,2,3,1).contiguous()\<close>: the channel axis of an
  \<open>N x C x H x W\<close> tensor moves last and the elements are laid out again in
  row-major order of the new shape. torch refuses a permutation of four axes on a tensor
  of another rank.
\<close>

definition permute_0231 :: "'a tensor \<Rightarrow> error + 'a tensor" where
  "permute_0231 x =
     (case shape x of
        [N, C, H, W] \<Rightarrow>
          Inr \<lparr>shape = [N, H, W, C],
               data = map (\<lambda>i. let c = i mod C;
                                    w = (i div C) mod W;
                                    h = (i div (C * W)) mod H;
                                    n = i div (C * W * H)
                                in data x ! (((n * C + c) * H + h) * W + w))
                          [0..<N * H * W * C]\<rparr>
      | _ \<Rightarrow> Inl RuntimeError)"

text \<open>
  \<^verbatim>\<open>y.view(n, -1, d)\<close>: the elements stay, the shape changes, and torch infers
  the middle extent. It raises when the known extents multiply to zero (the inferred extent
  would be ambiguous) or do not divide the number of elements.
\<close>

definition view_infer :: "'a tensor \<Rightarrow> nat \<Rightarrow> nat \<Rightarrow> error + 'a tensor" where
  "view_infer y n d =
     (let newsize = n * d in
      if 0 < newsize \<and> numel y mod newsize = 0
      then Inr \<lparr>shape = [n, numel y div newsize, d], data = data y\<rparr>
      else Inl RuntimeError)"

text \<open>\<^verbatim>\<open>x.size(0)\<close>; a tensor of rank 0 has no axis 0.\<close>

definition size0 :: "'a tensor \<Rightarrow> error + nat" where
  "size0 x = (case shape x of [] \<Rightarrow> Inl IndexError | n # _ \<Rightarrow> Inr n)"

section \<open>Flatten\<close>

text \<open>
  \<^verbatim>\<open>Flatten(last_dim).forward(x)\<close> is
  \<^verbatim>\<open>x.permute(0,2,3,1).contiguous().view(x.size(0), -1, self.last_dim)\<close>.
\<close>

definition Flatten_forward :: "nat \<Rightarrow> 'a tensor \<Rightarrow> error + 'a tensor" where
  "Flatten_forward last_dim x =
     (case permute_0231 x of
        Inl e \<Rightarrow> Inl e
      | Inr y \<Rightarrow>
          (case size0 x of
             Inl e \<Rightarrow> Inl e
           | Inr n \<Rightarrow> view_infer y n last_dim))"

section \<open>The torch operations of the loss computation\<close>

definition tmap :: "('a \<Rightarrow> 'b) \<Rightarrow> 'a tensor \<Rightarrow> 'b tensor" where
  "tmap f x = \<lparr>shape = shape x, data = map f (data x)\<rparr>"

text \<open>\<^verbatim>\<open>.long()\<close> on a float: truncation toward zero.\<close>

definition long :: "real \<Rightarrow> int" where
  "long v = (if 0 \<le> v then \<lfloor>v\<rfloor> else \<lceil>v\<rceil>)"

text \<open>The \<open>i\<close>-th block of \<open>d\<close> consecutive elements.\<close>

definition block :: "'a list \<Rightarrow> nat \<Rightarrow> nat \<Rightarrow> 'a list" where
  "block xs d i = take d (drop (i * d) xs)"

text \<open>\<^verbatim>\<open>x[n,:]\<close> for \<open>x\<close> of shape \<open>N x X\<close>: a vector of \<open>X\<close> elements.\<close>

definition row_at :: "'a tensor \<Rightarrow> nat \<Rightarrow> error + 'a tensor" where
  "row_at x n =
     (case shape x of
        [N, X] \<Rightarrow> if n < N then Inr \<lparr>shape = [X], data = block (data x) X n\<rparr>
                  else Inl IndexError
      | _ \<Rightarrow> Inl RankError)"

text \<open>The elements of \<open>xs\<close> at the positions where the mask holds.\<close>

definition masked :: "bool list \<Rightarrow> 'a list \<Rightarrow> 'a list" where
  "masked m xs = map snd (filter fst (zip m xs))"

text \<open>
  \<^verbatim>\<open>x[n, msk]\<close> for \<open>x\<close> of shape \<open>N x X\<close> and a boolean mask of shape
  \<open>X\<close>; torch raises IndexError when the mask does not have the extent of the axis.
\<close>

definition select_vec :: "'a tensor \<Rightarrow> nat \<Rightarrow> bool tensor \<Rightarrow> error + 'a tensor" where
  "select_vec x n msk =
     (case shape x of
        [N, X] \<Rightarrow>
          if n < N \<and> shape msk = [X]
          then Inr \<lparr>shape = [length (filter id (data msk))],
                    data = masked (data msk) (block (data x) X n)\<rparr>
          else Inl IndexError
      | _ \<Rightarrow> Inl RankError)"

text \<open>
  \<^verbatim>\<open>x[n, msk, :]\<close> for \<open>x\<close> of shape \<open>N x X x d\<close>: the rows of image \<open>n\<close>
  at which the mask holds, a tensor of shape \<open>Y x d\<close>.
\<close>

definition select_rows :: "'a tensor \<Rightarrow> nat \<Rightarrow> bool tensor \<Rightarrow> error + 'a tensor" where
  "select_rows x n msk =
     (case shape x of
        [N, X, d] \<Rightarrow>
          if n < N \<and> shape msk = [X]
          then Inr \<lparr>shape = [length (filter id (data msk)), d],
                    data = concat (masked (data msk)
                                     (map (\<lambda>i. block (data x) d (n * X + i)) [0..<X]))\<rparr>
          else Inl IndexError
      | _ \<Rightarrow> Inl RankError)"

text \<open>
  \<^verbatim>\<open>torch.index_select(x, dim=1, index=index)\<close>: the index is a vector of
  positions on axis 1, each within the axis.
\<close>

definition index_select_1 :: "'a tensor \<Rightarrow> int tensor \<Rightarrow> error + 'a tensor" where
  "index_select_1 x index =
     (case shape x of
        N # A # rest \<Rightarrow>
          if length (shape index) \<le> 1 \<and> list_all (\<lambda>i. 0 \<le> i \<and> i < int A) (data index)
          then let inner = prod_list rest in
               Inr \<lparr>shape = N # length (data index) # rest,
                    data = concat (map (\<lambda>n. concat (map (\<lambda>i. block (data x) inner (n * A + nat i))
                                                          (data index)))
                                       [0..<N])\<rparr>
          else Inl IndexError
      | _ \<Rightarrow> Inl IndexError)"

text \<open>
  A reduction to a 0-dim float tensor yields \<open>Some v\<close>, or \<open>None\<close> when the float
  is not finite: the mean of no elements is \<open>0/0 = nan\<close> in torch, where HOL's division
  would say \<open>0\<close>.
\<close>

definition mean :: "real list \<Rightarrow> real option" where
  "mean xs = (if xs = [] then None else Some (sum_list xs / real (length xs)))"

text \<open>
  \<^verbatim>\<open>F.cross_entropy(input, target)\<close> with the default mean reduction. The loss of one
  sample with scores \<open>row\<close> and class \<open>t\<close> is \<open>- ln (softmax row ! t)\<close>. A target
  equal to \<open>ignore_index = -100\<close> is left out of the mean; any other target outside
  \<open>[0, C)\<close> raises. \<open>input\<close> is \<open>Y x C\<close> with a target of shape \<open>Y\<close>, or
  \<open>N x C x R\<close> (classes on axis 1) with a target of shape \<open>N x R\<close>.
\<close>

definition nll :: "real list \<Rightarrow> nat \<Rightarrow> real" where
  "nll row t = ln (sum_list (map exp row)) - row ! t"

definition cross_entropy_rows :: "real list list \<Rightarrow> int list \<Rightarrow> error + real option" where
  "cross_entropy_rows rows targets =
     (if list_all2 (\<lambda>row t. t = - 100 \<or> (0 \<le> t \<and> t < int (length row))) rows targets
      then Inr (mean (map (\<lambda>(row, t). nll row (nat t))
                          (filter (\<lambda>(row, t). t \<noteq> - 100) (zip rows targets))))
      else Inl IndexError)"

definition cross_entropy :: "real tensor \<Rightarrow> int tensor \<Rightarrow> error + real option" where
  "cross_entropy input target =
     (case shape input of
        [Y, C] \<Rightarrow>
          if shape target = [Y]
          then cross_entropy_rows (map (\<lambda>i. block (data input) C i) [0..<Y]) (data target)
          else Inl ValueError
      | [N, C, R] \<Rightarrow>
          if shape target = [N, R]
          then cross_entropy_rows
                 (concat (map (\<lambda>n. map (\<lambda>r. map (\<lambda>c. data input ! ((n * C + c) * R + r)) [0..<C])
                                         [0..<R])
                              [0..<N]))
                 (data target)
          else Inl ValueError
      | _ \<Rightarrow> Inl RankError)"

text \<open>
  \<^verbatim>\<open>F.smooth_l1_loss(input, target)\<close> with the default mean reduction over all
  elements. Operands of unequal shapes are reported as an error: torch raises unless the
  shapes broadcast, and the source's comments give both operands one shape.
\<close>

definition smooth_l1 :: "real \<Rightarrow> real" where
  "smooth_l1 z = (if \<bar>z\<bar> < 1 then z\<^sup>2 / 2 else \<bar>z\<bar> - 1 / 2)"

definition smooth_l1_loss :: "real tensor \<Rightarrow> real tensor \<Rightarrow> error + real option" where
  "smooth_l1_loss input target =
     (if shape input = shape target
      then Inr (mean (map (\<lambda>(x, y). smooth_l1 (x - y)) (zip (data input) (data target))))
      else Inl RuntimeError)"

section \<open>Python values\<close>

text \<open>
  A loss variable of the source holds a Python number (it starts as the int \<open>0\<close>) or,
  once a tensor has been added to it, a 0-dim float tensor.
\<close>

datatype pynum = PyNum real | Scalar "real option"

fun lift2 :: "(real \<Rightarrow> real \<Rightarrow> real) \<Rightarrow> real option \<Rightarrow> real option \<Rightarrow> real option" where
  "lift2 f (Some u) (Some v) = Some (f u v)"
| "lift2 f _ _ = None"

text \<open>\<^verbatim>\<open>a + b\<close> where each operand is a Python number or a 0-dim tensor.\<close>

fun py_add :: "pynum \<Rightarrow> pynum \<Rightarrow> pynum" where
  "py_add (PyNum a) (PyNum b) = PyNum (a + b)"
| "py_add (PyNum a) (Scalar t) = Scalar (lift2 (+) (Some a) t)"
| "py_add (Scalar s) (PyNum b) = Scalar (lift2 (+) s (Some b))"
| "py_add (Scalar s) (Scalar t) = Scalar (lift2 (+) s t)"

text \<open>
  \<^verbatim>\<open>a /= k\<close> for a Python int \<open>k\<close>: Python raises on a zero divisor, a tensor
  becomes \<open>inf\<close> or \<open>nan\<close>.
\<close>

fun py_div_int :: "pynum \<Rightarrow> nat \<Rightarrow> error + pynum" where
  "py_div_int (PyNum a) k = (if k = 0 then Inl ZeroDivisionError else Inr (PyNum (a / real k)))"
| "py_div_int (Scalar s) k =
     Inr (Scalar (if k = 0 then None else lift2 (/) s (Some (real k))))"

text \<open>The values a returned tuple holds.\<close>

datatype pyobj = PyNone | Num pynum | FloatTensor "real tensor" | LongTensor "int tensor"

section \<open>Configuration and collaborators\<close>

text \<open>
  The configuration object \<^verbatim>\<open>config.Config\<close>. \<^verbatim>\<open>RPN.__init__\<close> reads the
  first six fields. The thresholds are named after the spec's configuration parameters;
  the layers built without arguments read them.
\<close>

record config =
  IMG_SIZE :: "nat \<times> nat"
  RPN_ANCHOR_STRIDE :: nat
  RPN_ANCHOR_SCALES :: "real list"
  RPN_ANCHOR_RATIOS :: "real list"
  RES_OUT_CHANNEL :: nat
  CONV_OUT_CHANNEL :: nat
  nms_threshold :: real
  positive_threshold :: real
  negative_threshold :: real
  fg_threshold :: real
  bg_threshold :: real

text \<open>\<^verbatim>\<open>nn.Conv2d(in_channels, out_channels, kernel_size, stride, padding)\<close>.\<close>

record conv2d =
  in_channels :: nat
  out_channels :: nat
  kernel_size :: nat
  stride :: nat
  padding :: nat

text \<open>
  The forward functions of the three layers \<^verbatim>\<open>Proposal\<close>, \<^verbatim>\<open>AnchorRefine\<close>
  and \<^verbatim>\<open>ProposalRefine\<close>. The first two receive \<^verbatim>\<open>self.anchors\<close> by
  reference: besides their result (or exception) they return the content of that tensor
  after the call.
\<close>

type_synonym proposal_layer =
  "real tensor \<Rightarrow> real tensor \<Rightarrow> real tensor
     \<Rightarrow> (error + real tensor \<times> real tensor) \<times> real tensor"

type_synonym anchor_refine_layer =
  "real tensor \<Rightarrow> real tensor
     \<Rightarrow> (error + real tensor \<times> real tensor \<times> int tensor) \<times> real tensor"

type_synonym proposal_refine_layer =
  "real tensor \<Rightarrow> real tensor \<Rightarrow> int tensor
     \<Rightarrow> error + real tensor \<times> int tensor \<times> real tensor"

text \<open>
  What the RPN takes from outside this file, each of which may raise: the anchor generator
  \<^verbatim>\<open>AnchorGeneration(img_size, stride, scales, ratios).generate_all()\<close>, the move
  of a tensor to the configured device \<^verbatim>\<open>.to(cfg.DEVICE)\<close>, the constructor
  \<^verbatim>\<open>nn.Conv2d(...)\<close> (it returns a layer with the given attributes or raises; the
  model records the exception, if any), the constructors of the three layers (they take no
  argument and read the configuration), and torch's convolution with the weights of each
  \<^verbatim>\<open>nn.Conv2d\<close>.
\<close>

record collaborators =
  generate_all :: "nat \<times> nat \<Rightarrow> nat \<Rightarrow> real list \<Rightarrow> real list \<Rightarrow> error + real tensor"
  to_device :: "real tensor \<Rightarrow> error + real tensor"
  Conv2d_raises :: "conv2d \<Rightarrow> error option"
  Proposal :: "config \<Rightarrow> error + proposal_layer"
  AnchorRefine :: "config \<Rightarrow> error + anchor_refine_layer"
  ProposalRefine :: "config \<Rightarrow> error + proposal_refine_layer"
  conv2d_forward :: "conv2d \<Rightarrow> real tensor \<Rightarrow> error + real tensor"

section \<open>RPN: construction\<close>

text \<open>
  An \<^verbatim>\<open>RPN\<close> object: the \<^verbatim>\<open>training\<close> flag every \<^verbatim>\<open>nn.Module\<close>
  has (true after construction) and the attributes \<^verbatim>\<open>__init__\<close> assigns. A head is
  \<^verbatim>\<open>nn.Sequential(nn.Conv2d(...), Flatten(last_dim))\<close>.
\<close>

record head =
  head_conv :: conv2d
  head_flatten :: nat

record nn_Module =
  training :: bool

record RPN = nn_Module +
  anchors :: "real tensor"
  conv :: conv2d
  conv_bbox_score :: head
  conv_bbox_coeff :: head
  proposal :: proposal_layer
  anchor_refine :: anchor_refine_layer
  proposal_refine :: proposal_refine_layer

definition RPN_init :: "collaborators \<Rightarrow> config \<Rightarrow> error + RPN" where
  "RPN_init E cfg =
     (case generate_all E (IMG_SIZE cfg) (RPN_ANCHOR_STRIDE cfg)
                          (RPN_ANCHOR_SCALES cfg) (RPN_ANCHOR_RATIOS cfg) of
        Inl e \<Rightarrow> Inl e
      | Inr generated \<Rightarrow>
     (case to_device E generated of
        Inl e \<Rightarrow> Inl e
      | Inr anchors0 \<Rightarrow>
          let conv0 = \<lparr>in_channels = RES_OUT_CHANNEL cfg, out_channels = CONV_OUT_CHANNEL cfg,
                       kernel_size = 3, stride = 1, padding = 1\<rparr>
          in
     (case Conv2d_raises E conv0 of
        Some e \<Rightarrow> Inl e
      | None \<Rightarrow>
          let anchor_types = length (RPN_ANCHOR_RATIOS cfg) * length (RPN_ANCHOR_SCALES cfg);
              score_conv = \<lparr>in_channels = CONV_OUT_CHANNEL cfg,
                            out_channels = anchor_types * 2,
                            kernel_size = 1, stride = 1, padding = 0\<rparr>
          in
     (case Conv2d_raises E score_conv of
        Some e \<Rightarrow> Inl e
      | None \<Rightarrow>
          let coeff_conv = \<lparr>in_channels = CONV_OUT_CHANNEL cfg,
                            out_channels = anchor_types * 4,
                            kernel_size = 1, stride = 1, padding = 0\<rparr>
          in
     (case Conv2d_raises E coeff_conv of
        Some e \<Rightarrow> Inl e
      | None \<Rightarrow>
     (case Proposal E cfg of
        Inl e \<Rightarrow> Inl e
      | Inr proposal0 \<Rightarrow>
     (case AnchorRefine E cfg of
        Inl e \<Rightarrow> Inl e
      | Inr anchor_refine0 \<Rightarrow>
     (case ProposalRefine E cfg of
        Inl e \<Rightarrow> Inl e
      | Inr proposal_refine0 \<Rightarrow>
          Inr \<lparr>training = True, anchors = anchors0, conv = conv0,
               conv_bbox_score = \<lparr>head_conv = score_conv, head_flatten = 2\<rparr>,
               conv_bbox_coeff = \<lparr>head_conv = coeff_conv, head_flatten = 4\<rparr>,
               proposal = proposal0, anchor_refine = anchor_refine0,
               proposal_refine = proposal_refine0\<rparr>))))))))"

section \<open>RPN: the forward pass\<close>

text \<open>\<^verbatim>\<open>nn.ReLU\<close>, and the layers \<^verbatim>\<open>self.conv\<close> and the two heads.\<close>

definition relu :: "real tensor \<Rightarrow> real tensor" where
  "relu x = tmap (\<lambda>v. max 0 v) x"

definition conv_layer :: "collaborators \<Rightarrow> conv2d \<Rightarrow> real tensor \<Rightarrow> error + real tensor" where
  "conv_layer E c x =
     (case conv2d_forward E c x of Inl e \<Rightarrow> Inl e | Inr y \<Rightarrow> Inr (relu y))"

definition head_forward :: "collaborators \<Rightarrow> head \<Rightarrow> real tensor \<Rightarrow> error + real tensor" where
  "head_forward E h x =
     (case conv2d_forward E (head_conv h) x of
        Inl e \<Rightarrow> Inl e
      | Inr y \<Rightarrow> Flatten_forward (head_flatten h) y)"

text \<open>
  One turn of the loop over the images (steps 3 and 4 of the training branch): the
  classification loss over the anchors with label \<open>\<ge> 0\<close>, the regression loss over
  the anchors with label \<open>1\<close>.
\<close>

definition rpn_image_class_loss :: "real tensor \<Rightarrow> real tensor \<Rightarrow> nat \<Rightarrow> error + real option" where
  "rpn_image_class_loss labels bbox_score_anchors n =
     (case row_at labels n of
        Inl e \<Rightarrow> Inl e
      | Inr row \<Rightarrow>
          let fg_and_bg = tmap (\<lambda>l. 0 \<le> l) row in
          (case select_rows bbox_score_anchors n fg_and_bg of
             Inl e \<Rightarrow> Inl e
           | Inr pred_scores \<Rightarrow>
               (case select_vec labels n fg_and_bg of
                  Inl e \<Rightarrow> Inl e
                | Inr sampled \<Rightarrow>
                    let true_scores = tmap (\<lambda>l. long (1 - l)) sampled in
                    cross_entropy pred_scores true_scores)))"

definition rpn_image_bbox_loss ::
    "real tensor \<Rightarrow> real tensor \<Rightarrow> real tensor \<Rightarrow> nat \<Rightarrow> error + real option" where
  "rpn_image_bbox_loss labels bbox_coeff_anchors target_coeffs n =
     (case row_at labels n of
        Inl e \<Rightarrow> Inl e
      | Inr row \<Rightarrow>
          let fg = tmap (\<lambda>l. l = 1) row in
          (case select_rows bbox_coeff_anchors n fg of
             Inl e \<Rightarrow> Inl e
           | Inr pred_coeffs \<Rightarrow>
               (case select_rows target_coeffs n fg of
                  Inl e \<Rightarrow> Inl e
                | Inr true_coeffs \<Rightarrow> smooth_l1_loss pred_coeffs true_coeffs)))"

text \<open>
  The loop \<^verbatim>\<open>for n in range(labels.size(0))\<close> over the images still to visit, with
  the two running sums.
\<close>

fun rpn_loss_loop ::
    "real tensor \<Rightarrow> real tensor \<Rightarrow> real tensor \<Rightarrow> real tensor \<Rightarrow> nat list
       \<Rightarrow> pynum \<times> pynum \<Rightarrow> error + pynum \<times> pynum" where
  "rpn_loss_loop labels bsa bca target_coeffs [] acc = Inr acc"
| "rpn_loss_loop labels bsa bca target_coeffs (n # ns) (rpn_class_loss, rpn_bbox_loss) =
     (case rpn_image_class_loss labels bsa n of
        Inl e \<Rightarrow> Inl e
      | Inr ce \<Rightarrow>
          (case rpn_image_bbox_loss labels bca target_coeffs n of
             Inl e \<Rightarrow> Inl e
           | Inr sl \<Rightarrow>
               rpn_loss_loop labels bsa bca target_coeffs ns
                 (py_add rpn_class_loss (Scalar ce), py_add rpn_bbox_loss (Scalar sl))))"

text \<open>
  The loop and the average over the minibatch: from the loop header to
  \<^verbatim>\<open>rpn_loss = rpn_class_loss + rpn_bbox_loss\<close>. The result is
  \<open>(rpn_class_loss, rpn_bbox_loss, rpn_loss)\<close>.
\<close>

definition rpn_losses ::
    "real tensor \<Rightarrow> real tensor \<Rightarrow> real tensor \<Rightarrow> real tensor \<Rightarrow> real tensor
       \<Rightarrow> error + pynum \<times> pynum \<times> pynum" where
  "rpn_losses labels bbox_score_anchors bbox_coeff_anchors target_coeffs gt_boxes =
     (case size0 labels of
        Inl e \<Rightarrow> Inl e
      | Inr n_labels \<Rightarrow>
          (case rpn_loss_loop labels bbox_score_anchors bbox_coeff_anchors target_coeffs
                  [0..<n_labels] (PyNum 0, PyNum 0) of
             Inl e \<Rightarrow> Inl e
           | Inr (class_sum, bbox_sum) \<Rightarrow>
               (case size0 gt_boxes of
                  Inl e \<Rightarrow> Inl e
                | Inr n_gt \<Rightarrow>
                    (case py_div_int class_sum n_gt of
                       Inl e \<Rightarrow> Inl e
                     | Inr rpn_class_loss \<Rightarrow>
                         (case py_div_int bbox_sum n_gt of
                            Inl e \<Rightarrow> Inl e
                          | Inr rpn_bbox_loss \<Rightarrow>
                              Inr (rpn_class_loss, rpn_bbox_loss,
                                   py_add rpn_class_loss rpn_bbox_loss))))))"

text \<open>
  Step 4 of the training branch after the call of \<^verbatim>\<open>AnchorRefine\<close>: the scores and
  coefficients of the kept anchors, then the losses.
\<close>

definition rpn_training_loss ::
    "real tensor \<Rightarrow> real tensor \<Rightarrow> int tensor \<Rightarrow> real tensor \<Rightarrow> real tensor \<Rightarrow> real tensor
       \<Rightarrow> error + pynum \<times> pynum \<times> pynum" where
  "rpn_training_loss labels target_coeffs anchors_idx bbox_score bbox_coeff gt_boxes =
     (case index_select_1 bbox_score anchors_idx of
        Inl e \<Rightarrow> Inl e
      | Inr bbox_score_anchors \<Rightarrow>
          (case index_select_1 bbox_coeff anchors_idx of
             Inl e \<Rightarrow> Inl e
           | Inr bbox_coeff_anchors \<Rightarrow>
               rpn_losses labels bbox_score_anchors bbox_coeff_anchors target_coeffs gt_boxes))"

text \<open>
  \<^verbatim>\<open>RPN.forward(feature_map, gt_boxes, gt_classes)\<close>. The result is the returned
  tuple \<^verbatim>\<open>(rois, rois_labels, rois_coeffs, rpn_class_loss, rpn_bbox_loss, rpn_loss)\<close>
  as the list of its values, or the exception raised, together with the object after the
  call.
\<close>

definition RPN_forward ::
    "collaborators \<Rightarrow> RPN \<Rightarrow> real tensor \<Rightarrow> real tensor \<Rightarrow> int tensor
       \<Rightarrow> (error + pyobj list) \<times> RPN" where
  "RPN_forward E self feature_map gt_boxes gt_classes =
     (case conv_layer E (conv self) feature_map of
        Inl e \<Rightarrow> (Inl e, self)
      | Inr out \<Rightarrow>
     (case head_forward E (conv_bbox_score self) out of
        Inl e \<Rightarrow> (Inl e, self)
      | Inr bbox_score \<Rightarrow>
     (case head_forward E (conv_bbox_coeff self) out of
        Inl e \<Rightarrow> (Inl e, self)
      | Inr bbox_coeff \<Rightarrow>
     (case proposal self (anchors self) bbox_score bbox_coeff of
        (Inl e, a1) \<Rightarrow> (Inl e, self\<lparr>anchors := a1\<rparr>)
      | (Inr (roi_scores, rois), a1) \<Rightarrow>
          let self1 = self\<lparr>anchors := a1\<rparr> in
     (case (if training self1
            then (case anchor_refine self1 (anchors self1) gt_boxes of
                    (Inl e, a2) \<Rightarrow> (Inl e, a2)
                  | (Inr (labels, target_coeffs, anchors_idx), a2) \<Rightarrow>
                      (rpn_training_loss labels target_coeffs anchors_idx
                         bbox_score bbox_coeff gt_boxes, a2))
            else (Inr (PyNum 0, PyNum 0, PyNum 0), anchors self1)) of
        (Inl e, a2) \<Rightarrow> (Inl e, self1\<lparr>anchors := a2\<rparr>)
      | (Inr (rpn_class_loss, rpn_bbox_loss, rpn_loss), a2) \<Rightarrow>
          let self2 = self1\<lparr>anchors := a2\<rparr> in
     (case (if training self2
            then (case proposal_refine self2 rois gt_boxes gt_classes of
                    Inl e \<Rightarrow> Inl e
                  | Inr (rois', rois_labels, rois_coeffs) \<Rightarrow>
                      Inr (rois', LongTensor rois_labels, FloatTensor rois_coeffs))
            else Inr (rois, PyNone, PyNone)) of
        Inl e \<Rightarrow> (Inl e, self2)
      | Inr (rois', rois_labels, rois_coeffs) \<Rightarrow>
          (Inr [FloatTensor rois', rois_labels, rois_coeffs,
                Num rpn_class_loss, Num rpn_bbox_loss, Num rpn_loss], self2)))))))"

section \<open>FasterRCNN: the forward pass\<close>

text \<open>\<^verbatim>\<open>x.permute(0,2,1)\<close> of an \<open>N x R x K\<close> tensor, laid out again.\<close>

definition permute_021 :: "'a tensor \<Rightarrow> error + 'a tensor" where
  "permute_021 x =
     (case shape x of
        [N, R, K] \<Rightarrow>
          Inr \<lparr>shape = [N, K, R],
               data = map (\<lambda>i. let r = i mod R; k = (i div R) mod K; n = i div (R * K)
                                in data x ! ((n * R + r) * K + k))
                          [0..<N * K * R]\<rparr>
      | _ \<Rightarrow> Inl RuntimeError)"

text \<open>\<^verbatim>\<open>torch.argmax(x, dim=2)\<close> of an \<open>N x R x K\<close> tensor: for each row the
  position of its first maximum; torch raises on rows without elements.\<close>

fun argmax_from :: "real list \<Rightarrow> nat \<Rightarrow> nat \<Rightarrow> real \<Rightarrow> nat" where
  "argmax_from [] i best v = best"
| "argmax_from (x # xs) i best v =
     (if v < x then argmax_from xs (Suc i) i x else argmax_from xs (Suc i) best v)"

definition argmax_2 :: "real tensor \<Rightarrow> error + int tensor" where
  "argmax_2 x =
     (case shape x of
        [N, R, K] \<Rightarrow>
          if K = 0 then Inl IndexError
          else Inr \<lparr>shape = [N, R],
                    data = map (\<lambda>j. case block (data x) K j of
                                        [] \<Rightarrow> 0
                                      | v # vs \<Rightarrow> int (argmax_from vs 1 0 v))
                               [0..<N * R]\<rparr>
      | _ \<Rightarrow> Inl RankError)"

text \<open>
  The bounding-box regression loss of the head, \<^verbatim>\<open>rcnn_bbox_loss\<close>:
  \<^verbatim>\<open>F.smooth_l1_loss(pred_rois_coeffs, gt_rois_coeffs)\<close> over the whole
  \<open>N x R x (numClasses+1)*4\<close> tensors.
\<close>

definition rcnn_bbox_regression_loss :: "real tensor \<Rightarrow> real tensor \<Rightarrow> error + real option" where
  "rcnn_bbox_regression_loss pred_rois_coeffs gt_rois_coeffs =
     smooth_l1_loss pred_rois_coeffs gt_rois_coeffs"

text \<open>Step 5: the two losses of the head, \<open>0, 0\<close> outside training.\<close>

definition rcnn_losses ::
    "bool \<Rightarrow> real tensor \<Rightarrow> real tensor \<Rightarrow> pyobj \<Rightarrow> pyobj \<Rightarrow> error + pynum \<times> pynum" where
  "rcnn_losses train pred_rois_scores pred_rois_coeffs gt_rois_labels gt_rois_coeffs =
     (if train
      then (case permute_021 pred_rois_scores of
              Inl e \<Rightarrow> Inl e
            | Inr scores \<Rightarrow>
                (case gt_rois_labels of
                   LongTensor labels \<Rightarrow>
                     (case cross_entropy scores labels of
                        Inl e \<Rightarrow> Inl e
                      | Inr rcnn_class_loss \<Rightarrow>
                          (case gt_rois_coeffs of
                             FloatTensor coeffs \<Rightarrow>
                               (case rcnn_bbox_regression_loss pred_rois_coeffs coeffs of
                                  Inl e \<Rightarrow> Inl e
                                | Inr rcnn_bbox_loss \<Rightarrow>
                                    Inr (Scalar rcnn_class_loss, Scalar rcnn_bbox_loss))
                           | _ \<Rightarrow> Inl TypeError))
                 | _ \<Rightarrow> Inl TypeError))
      else Inr (PyNum 0, PyNum 0))"

text \<open>
  A \<^verbatim>\<open>FasterRCNN\<close> object. The backbone, the pooling and the classification head
  are layers from outside this file; the pooling receives whatever value the name
  \<^verbatim>\<open>rois\<close> is bound to.
\<close>

record FasterRCNN = nn_Module +
  cnn :: "real tensor \<Rightarrow> error + real tensor"
  rpn :: RPN
  pooling :: "pyobj \<Rightarrow> real tensor \<Rightarrow> error + real tensor"
  classification :: "real tensor \<Rightarrow> error + real tensor \<times> real tensor"

text \<open>
  \<^verbatim>\<open>FasterRCNN.forward(images, gt_boxes, gt_classes)\<close>. The assignment
  \<^verbatim>\<open>rois, gt_rois_labels, gt_rois_coeffs, rpn_loss = self.rpn(...)\<close> binds four names:
  Python raises ValueError unless the tuple holds exactly four values.
\<close>

definition FasterRCNN_forward ::
    "collaborators \<Rightarrow> FasterRCNN \<Rightarrow> real tensor \<Rightarrow> real tensor \<Rightarrow> int tensor
       \<Rightarrow> (error + pyobj list) \<times> FasterRCNN" where
  "FasterRCNN_forward E self images gt_boxes gt_classes =
     (case cnn self images of
        Inl e \<Rightarrow> (Inl e, self)
      | Inr feature_map \<Rightarrow>
     (case RPN_forward E (rpn self) feature_map gt_boxes gt_classes of
        (Inl e, rpn1) \<Rightarrow> (Inl e, self\<lparr>rpn := rpn1\<rparr>)
      | (Inr returned, rpn1) \<Rightarrow>
          let self1 = self\<lparr>rpn := rpn1\<rparr> in
     (case returned of
        [rois, gt_rois_labels, gt_rois_coeffs, rpn_loss] \<Rightarrow>
          (case pooling self1 rois feature_map of
             Inl e \<Rightarrow> (Inl e, self1)
           | Inr crops \<Rightarrow>
          (case classification self1 crops of
             Inl e \<Rightarrow> (Inl e, self1)
           | Inr (pred_rois_scores, pred_rois_coeffs) \<Rightarrow>
          (case argmax_2 pred_rois_scores of
             Inl e \<Rightarrow> (Inl e, self1)
           | Inr pred_rois_classes \<Rightarrow>
          (case rcnn_losses (training self1) pred_rois_scores pred_rois_coeffs
                  gt_rois_labels gt_rois_coeffs of
             Inl e \<Rightarrow> (Inl e, self1)
           | Inr (rcnn_class_loss, rcnn_bbox_loss) \<Rightarrow>
          (case rpn_loss of
             Num l \<Rightarrow>
               (Inr [rois, LongTensor pred_rois_classes, FloatTensor pred_rois_coeffs,
                     Num (py_add (py_add l rcnn_class_loss) rcnn_bbox_loss)], self1)
           | PyNone \<Rightarrow> (Inl TypeError, self1)
           | _ \<Rightarrow> (Inl RankError, self1))))))
      | _ \<Rightarrow> (Inl ValueError, self1))))"

section \<open>A small instance\<close>

text \<open>
  One image, a \<open>1 x 1\<close> feature grid, one anchor type. The convolutions return ones,
  the three layers fixed tensors of the documented shapes, and none of them touches the
  anchors.
\<close>

definition example_config :: config where
  "example_config =
     \<lparr>IMG_SIZE = (16, 16), RPN_ANCHOR_STRIDE = 16, RPN_ANCHOR_SCALES = [1],
      RPN_ANCHOR_RATIOS = [1], RES_OUT_CHANNEL = 1, CONV_OUT_CHANNEL = 1,
      nms_threshold = 7 / 10, positive_threshold = 7 / 10, negative_threshold = 3 / 10,
      fg_threshold = 1 / 2, bg_threshold = 1 / 10\<rparr>"

definition example_rois :: "real tensor" where
  "example_rois = \<lparr>shape = [1, 1, 4], data = [0, 0, 16, 16]\<rparr>"

definition example_proposal :: proposal_layer where
  "example_proposal a bbox_score bbox_coeff =
     (Inr (\<lparr>shape = [1, 1, 1], data = [1]\<rparr>, example_rois), a)"

definition example_anchor_refine :: anchor_refine_layer where
  "example_anchor_refine a gt_boxes =
     (Inr (\<lparr>shape = [1, 1], data = [1]\<rparr>,
           \<lparr>shape = [1, 1, 4], data = [0, 0, 0, 0]\<rparr>,
           \<lparr>shape = [1], data = [0]\<rparr>), a)"

definition example_proposal_refine :: proposal_refine_layer where
  "example_proposal_refine rois gt_boxes gt_classes =
     Inr (rois, \<lparr>shape = [1, 1], data = [1]\<rparr>,
          \<lparr>shape = [1, 1, 8], data = [0, 0, 0, 0, 0, 0, 0, 0]\<rparr>)"

definition example_collaborators :: collaborators where
  "example_collaborators =
     \<lparr>generate_all = (\<lambda>img_size stride scales ratios.
                        Inr \<lparr>shape = [length scales * length ratios, 4],
                             data = concat (replicate (length scales * length ratios)
                                              [0, 0, 16, 16])\<rparr>),
      to_device = (\<lambda>x. Inr x),
      Conv2d_raises = (\<lambda>c. None),
      Proposal = (\<lambda>cfg. Inr example_proposal),
      AnchorRefine = (\<lambda>cfg. Inr example_anchor_refine),
      ProposalRefine = (\<lambda>cfg. Inr example_proposal_refine),
      conv2d_forward = (\<lambda>c x. Inr \<lparr>shape = [1, out_channels c, 1, 1],
                                     data = replicate (out_channels c) 1\<rparr>)\<rparr>"

definition example_rpn :: RPN where
  "example_rpn =
     \<lparr>training = True,
      anchors = \<lparr>shape = [1, 4], data = [0, 0, 16, 16]\<rparr>,
      conv = \<lparr>in_channels = 1, out_channels = 1, kernel_size = 3, stride = 1, padding = 1\<rparr>,
      conv_bbox_score =
        \<lparr>head_conv = \<lparr>in_channels = 1, out_channels = 2, kernel_size = 1, stride = 1,
                       padding = 0\<rparr>,
         head_flatten = 2\<rparr>,
      conv_bbox_coeff =
        \<lparr>head_conv = \<lparr>in_channels = 1, out_channels = 4, kernel_size = 1, stride = 1,
                       padding = 0\<rparr>,
         head_flatten = 4\<rparr>,
      proposal = example_proposal, anchor_refine = example_anchor_refine,
      proposal_refine = example_proposal_refine\<rparr>"

definition example_feature_map :: "real tensor" where
  "example_feature_map = \<lparr>shape = [1, 1, 1, 1], data = [1]\<rparr>"

definition example_gt_boxes :: "real tensor" where
  "example_gt_boxes = \<lparr>shape = [1, 1, 4], data = [0, 0, 16, 16]\<rparr>"

definition example_gt_classes :: "int tensor" where
  "example_gt_classes = \<lparr>shape = [1, 1], data = [1]\<rparr>"

definition example_model :: FasterRCNN where
  "example_model =
     \<lparr>training = True, cnn = (\<lambda>images. Inr example_feature_map), rpn = example_rpn,
      pooling = (\<lambda>rois feature_map. Inr \<lparr>shape = [1, 1, 1, 7, 7], data = replicate 49 1\<rparr>),
      classification = (\<lambda>crops. Inr (\<lparr>shape = [1, 1, 2], data = [0, 1]\<rparr>,
                                      \<lparr>shape = [1, 1, 8], data = [0, 0, 0, 0, 0, 0, 0, 0]\<rparr>))\<rparr>"

section \<open>Notions of the specification\<close>

text \<open>
  The losses of the RPN in the words of the claims. The sampled anchors of image \<open>n\<close>
  are those with label \<open>\<ge> 0\<close>, its foreground anchors those with label \<open>1\<close>. The
  cross-entropy of one anchor is minus the logarithm of the softmax probability of its own
  kind, with the foreground score in column 0 and the background score in column 1. The
  loss of an image is a mean over its anchors, the loss of the batch is \<open>1/N\<close> times
  the sum over the images (not finite as soon as one image's mean is not).
\<close>

definition sampled :: "real tensor \<Rightarrow> nat \<Rightarrow> nat list" where
  "sampled labels n = filter (\<lambda>i. 0 \<le> at2 labels n i) [0..<shape labels ! 1]"

definition foreground :: "real tensor \<Rightarrow> nat \<Rightarrow> nat list" where
  "foreground labels n = filter (\<lambda>i. at2 labels n i = 1) [0..<shape labels ! 1]"

definition spec_anchor_cross_entropy :: "real \<Rightarrow> real \<Rightarrow> real \<Rightarrow> real" where
  "spec_anchor_cross_entropy fg_score bg_score label =
     - ln ((if label = 1 then exp fg_score else exp bg_score) / (exp fg_score + exp bg_score))"

definition spec_image_class_loss :: "real tensor \<Rightarrow> real tensor \<Rightarrow> nat \<Rightarrow> real option" where
  "spec_image_class_loss labels scores n =
     mean (map (\<lambda>i. spec_anchor_cross_entropy (at3 scores n i 0) (at3 scores n i 1)
                       (at2 labels n i))
               (sampled labels n))"

definition spec_image_bbox_loss ::
    "real tensor \<Rightarrow> real tensor \<Rightarrow> real tensor \<Rightarrow> nat \<Rightarrow> real option" where
  "spec_image_bbox_loss labels coeffs targets n =
     mean (concat (map (\<lambda>i. map (\<lambda>k. smooth_l1 (at3 coeffs n i k - at3 targets n i k))
                               [0..<shape coeffs ! 2])
                       (foreground labels n)))"

text \<open>The running sum of the loop: finite while every summand is.\<close>

definition opt_sum :: "(nat \<Rightarrow> real option) \<Rightarrow> nat list \<Rightarrow> real option" where
  "opt_sum c ns = (if list_all (\<lambda>n. c n \<noteq> None) ns
                   then Some (sum_list (map (\<lambda>n. the (c n)) ns)) else None)"

definition spec_batch_average :: "real option list \<Rightarrow> real option" where
  "spec_batch_average xs =
     (if list_all (\<lambda>x. x \<noteq> None) xs
      then Some (sum_list (map the xs) / real (length xs))
      else None)"

text \<open>
  Modelled from the spec: the box transform of the Geometric Transform Utilities
  (\<^verbatim>\<open>encode\<close> and \<^verbatim>\<open>decode\<close>) is not among the source files. Section 3 of the
  specification gives a box as four numbers \<open>(x1, y1, x2, y2)\<close> and the regression
  coefficients as four numbers \<open>(dx, dy, dw, dh)\<close>, "log-space for w/h, relative offset
  for x/y": the offset of the centres relative to the source box's extent, and the
  logarithm of the ratio of the extents.
\<close>

record box =
  xmin :: real
  ymin :: real
  xmax :: real
  ymax :: real

record coefficients =
  dx :: real
  dy :: real
  dw :: real
  dh :: real

definition box_w :: "box \<Rightarrow> real" where
  "box_w b = xmax b - xmin b"

definition box_h :: "box \<Rightarrow> real" where
  "box_h b = ymax b - ymin b"

definition box_cx :: "box \<Rightarrow> real" where
  "box_cx b = xmin b + box_w b / 2"

definition box_cy :: "box \<Rightarrow> real" where
  "box_cy b = ymin b + box_h b / 2"

definition non_degenerate :: "box \<Rightarrow> bool" where
  "non_degenerate b = (0 < box_w b \<and> 0 < box_h b)"

definition encode :: "box \<Rightarrow> box \<Rightarrow> coefficients" where
  "encode A B =
     \<lparr>dx = (box_cx B - box_cx A) / box_w A,
      dy = (box_cy B - box_cy A) / box_h A,
      dw = ln (box_w B / box_w A),
      dh = ln (box_h B / box_h A)\<rparr>"

definition decode :: "box \<Rightarrow> coefficients \<Rightarrow> box" where
  "decode A c =
     (let cx = box_cx A + dx c * box_w A;
          cy = box_cy A + dy c * box_h A;
          w = box_w A * exp (dw c);
          h = box_h A * exp (dh c)
      in \<lparr>xmin = cx - w / 2, ymin = cy - h / 2, xmax = cx + w / 2, ymax = cy + h / 2\<rparr>)"

section \<open>A second small instance: one image, three anchors\<close>

text \<open>
  The labels are \<open>1\<close> (foreground), \<open>0\<close> (background) and \<open>-1\<close> (ignore). The two
  sets of predictions and targets differ at the ignored anchor only (and, for the
  coefficients, at the background anchor).
\<close>

definition example_labels :: "real tensor" where
  "example_labels = \<lparr>shape = [1, 3], data = [1, 0, - 1]\<rparr>"

definition example_scores :: "real tensor" where
  "example_scores = \<lparr>shape = [1, 3, 2], data = [2, 0, 0, 1, 5, 7]\<rparr>"

definition example_scores' :: "real tensor" where
  "example_scores' = \<lparr>shape = [1, 3, 2], data = [2, 0, 0, 1, - 3, 4]\<rparr>"

definition example_coeffs :: "real tensor" where
  "example_coeffs = \<lparr>shape = [1, 3, 4], data = [1, 1, 1, 1, 2, 2, 2, 2, 3, 3, 3, 3]\<rparr>"

definition example_coeffs' :: "real tensor" where
  "example_coeffs' = \<lparr>shape = [1, 3, 4], data = [1, 1, 1, 1, 0, 0, 0, 0, 9, 9, 9, 9]\<rparr>"

definition example_targets :: "real tensor" where
  "example_targets = \<lparr>shape = [1, 3, 4], data = [1, 1, 3, 1, 0, 0, 0, 0, 0, 0, 0, 0]\<rparr>"

definition example_targets' :: "real tensor" where
  "example_targets' = \<lparr>shape = [1, 3, 4], data = [1, 1, 3, 1, 5, 5, 5, 5, 6, 6, 6, 6]\<rparr>"


section \<open>Flatten: the layout of the reshaped heads\<close>

lemma row_major_lt:
  fixes a b :: nat
  assumes "a < A" "b < B"
  shows "a * B + b < A * B"
proof -
  have "a * B + b < a * B + B" using assms by simp
  also have "\<dots> = Suc a * B" by simp
  also have "\<dots> \<le> A * B" using assms by (intro mult_le_mono1) simp
  finally show ?thesis .
qed

lemma split_index:
  fixes n h w c :: nat
  assumes "c < C" "w < W" "h < H"
  defines "i \<equiv> ((n * H + h) * W + w) * C + c"
  shows "i mod C = c" "(i div C) mod W = w" "(i div (C * W)) mod H = h" "i div (C * W * H) = n"
proof -
  have d1: "i div C = (n * H + h) * W + w" using assms by simp
  show "i mod C = c" using assms by simp
  show "(i div C) mod W = w" using d1 assms by simp
  have d2: "i div (C * W) = n * H + h" using d1 assms by (simp add: div_mult2_eq)
  show "(i div (C * W)) mod H = h" using d2 assms by simp
  have "i div (C * W * H) = (i div (C * W)) div H" by (simp add: div_mult2_eq)
  then show "i div (C * W * H) = n" using d2 assms by simp
qed

lemma index_bound:
  fixes n h w c :: nat
  assumes "n < N" "h < H" "w < W" "c < C"
  shows "((n * H + h) * W + w) * C + c < N * H * W * C"
  using assms by (intro row_major_lt)

text \<open>
  An empty batch (or \<open>last_dim = 0\<close>) makes the inferred extent of the view ambiguous:
  \<^verbatim>\<open>Flatten\<close> raises there.
\<close>

lemma Flatten_forward_empty_batch:
  "Flatten_forward d \<lparr>shape = [0, C, H, W], data = xs\<rparr> = Inl RuntimeError"
  by (simp add: Flatten_forward_def permute_0231_def size0_def view_infer_def)

lemma Flatten_forward_entries:
  assumes sh: "shape x = [N, T * d, H, W]" and pos: "0 < N" "0 < d"
  shows "\<exists>y. Flatten_forward d x = Inr y \<and> shape y = [N, H * W * T, d] \<and> wf_tensor y
           \<and> (\<forall>n<N. \<forall>h<H. \<forall>w<W. \<forall>t<T. \<forall>k<d.
                 at3 y n ((h * W + w) * T + t) k = at4 x n (t * d + k) h w)"
proof -
  define y where "y = \<lparr>shape = [N, H, W, T * d],
       data = map (\<lambda>i. let c = i mod (T * d);
                            w = (i div (T * d)) mod W;
                            h = (i div (T * d * W)) mod H;
                            n = i div (T * d * W * H)
                        in data x ! (((n * (T * d) + c) * H + h) * W + w))
                  [0..<N * H * W * (T * d)]\<rparr>"
  have py: "permute_0231 x = Inr y" by (simp add: permute_0231_def sh y_def)
  have ny: "numel y = (H * W * T) * (N * d)" by (simp add: numel_def y_def)
  define z where "z = \<lparr>shape = [N, H * W * T, d], data = data y\<rparr>"
  have vz: "view_infer y N d = Inr z"
    using pos by (simp add: view_infer_def ny z_def)
  have fz: "Flatten_forward d x = Inr z"
    by (simp add: Flatten_forward_def py size0_def sh vz)
  have wz: "wf_tensor z" by (simp add: wf_tensor_def numel_def z_def y_def)
  have el: "at3 z n ((h * W + w) * T + t) k = at4 x n (t * d + k) h w"
    if b: "n < N" "h < H" "w < W" "t < T" "k < d" for n h w t k
  proof -
    have c: "t * d + k < T * d" using b by (intro row_major_lt)
    let ?i = "((n * H + h) * W + w) * (T * d) + (t * d + k)"
    have e: "(n * (H * W * T) + ((h * W + w) * T + t)) * d + k = ?i" by (simp add: algebra_simps)
    have lt: "?i < N * H * W * (T * d)" using b(1,2,3) c by (rule index_bound)
    note sp = split_index[OF c b(3) b(2), of n]
    have "at3 z n ((h * W + w) * T + t) k = data y ! ?i"
      by (simp add: at3_def z_def e)
    also have "\<dots> = at4 x n (t * d + k) h w"
      using lt sp by (simp add: y_def at4_def sh Let_def)
    finally show ?thesis .
  qed
  show ?thesis using fz wz el by (intro exI[of _ z]) (simp add: z_def)
qed

text \<open>
  Claim C6. \<^verbatim>\<open>Flatten(d).forward\<close> maps a tensor of shape \<open>N x (T*d) x H x W\<close>
  (a batch of at least one image, \<open>d\<close> positive) to a tensor of shape
  \<open>N x (H*W*T) x d\<close> whose entry at \<open>(n, (h*W + w)*T + t, k)\<close> is the input entry at
  \<open>(n, t*d + k, h, w)\<close>: rows outermost, then columns, then anchor type. With
  \<open>d = 2\<close> and \<open>d = 4\<close> these are the \<open>N x A x 2\<close> scores and the
  \<open>N x A x 4\<close> coefficients, \<open>A = H*W*T\<close>.
\<close>

theorem Flatten_forward_layout:
  assumes "shape x = [N, T * d, H, W]" and "0 < N" and "0 < d"
  shows "\<exists>y. Flatten_forward d x = Inr y \<and> shape y = [N, H * W * T, d] \<and> wf_tensor y
           \<and> (\<forall>n<N. \<forall>h<H. \<forall>w<W. \<forall>t<T. \<forall>k<d.
                 at3 y n ((h * W + w) * T + t) k = at4 x n (t * d + k) h w)"
  using assms by (rule Flatten_forward_entries)

theorem Flatten_forward_layout_witness:
  "\<exists>y. Flatten_forward 2 \<lparr>shape = [1, 4, 1, 2], data = [1, 2, 3, 4, 5, 6, 7, 8 :: real]\<rparr> = Inr y
       \<and> shape y = [1, 4, 2] \<and> at3 y 0 3 1 = 8"
proof -
  let ?x = "\<lparr>shape = [1, 4, 1, 2], data = [1, 2, 3, 4, 5, 6, 7, 8 :: real]\<rparr>"
  have sh: "shape ?x = [1, 2 * 2, 1, 2]" by simp
  from Flatten_forward_layout[OF sh] obtain y where
    y: "Flatten_forward 2 ?x = Inr y" "shape y = [1, 1 * 2 * 2, 2]"
       "\<forall>n<1. \<forall>h<1. \<forall>w<2. \<forall>t<2. \<forall>k<2.
          at3 y n ((h * 2 + w) * 2 + t) k = at4 ?x n (t * 2 + k) h w"
    by auto
  have "at3 y 0 ((0 * 2 + 1) * 2 + 1) 1 = at4 ?x 0 (1 * 2 + 1) 0 1"
    by (rule y(3)[rule_format]) simp_all
  then have "at3 y 0 3 1 = 8" by (simp add: at4_def)
  with y(1,2) show ?thesis by simp
qed

text \<open>
  The two heads of a constructed RPN: a convolution with \<open>anchor_types * 2\<close> (or
  \<open>* 4\<close>) output channels that keeps the grid, then \<^verbatim>\<open>Flatten(2)\<close> (or
  \<^verbatim>\<open>Flatten(4)\<close>), give \<open>N x A x 2\<close> scores and \<open>N x A x 4\<close> coefficients
  with \<open>A = H * W * anchor_types\<close>.
\<close>

lemma RPN_heads_shapes:
  assumes init: "RPN_init E cfg = Inr self"
    and T: "T = length (RPN_ANCHOR_RATIOS cfg) * length (RPN_ANCHOR_SCALES cfg)"
    and cs: "conv2d_forward E (head_conv (conv_bbox_score self)) out = Inr ys"
            "shape ys = [N, out_channels (head_conv (conv_bbox_score self)), H, W]"
    and cc: "conv2d_forward E (head_conv (conv_bbox_coeff self)) out = Inr yc"
            "shape yc = [N, out_channels (head_conv (conv_bbox_coeff self)), H, W]"
    and pos: "0 < N"
  shows "\<exists>bbox_score bbox_coeff.
           head_forward E (conv_bbox_score self) out = Inr bbox_score
         \<and> shape bbox_score = [N, H * W * T, 2]
         \<and> head_forward E (conv_bbox_coeff self) out = Inr bbox_coeff
         \<and> shape bbox_coeff = [N, H * W * T, 4]"
proof -
  from init have f: "head_flatten (conv_bbox_score self) = 2"
      "out_channels (head_conv (conv_bbox_score self)) = T * 2"
      "head_flatten (conv_bbox_coeff self) = 4"
      "out_channels (head_conv (conv_bbox_coeff self)) = T * 4"
    by (auto simp add: RPN_init_def Let_def T split: sum.splits option.splits)
  have s: "shape ys = [N, T * 2, H, W]" using cs(2) f(2) by simp
  have c: "shape yc = [N, T * 4, H, W]" using cc(2) f(4) by simp
  from Flatten_forward_entries[OF s pos] obtain bs where
    bs: "Flatten_forward 2 ys = Inr bs" "shape bs = [N, H * W * T, 2]" by auto
  from Flatten_forward_entries[OF c pos] obtain bc where
    bc: "Flatten_forward 4 yc = Inr bc" "shape bc = [N, H * W * T, 4]" by auto
  show ?thesis using bs bc cs(1) cc(1) f(1,3) by (simp add: head_forward_def)
qed

section \<open>The small instance, evaluated\<close>

lemma example_conv:
  "conv_layer example_collaborators (conv example_rpn) x
     = Inr \<lparr>shape = [1, 1, 1, 1], data = [1]\<rparr>"
  by (simp add: example_collaborators_def example_rpn_def conv_layer_def relu_def tmap_def)

lemma example_bbox_score:
  "head_forward example_collaborators (conv_bbox_score example_rpn) x
     = Inr \<lparr>shape = [1, 1, 2], data = [1, 1]\<rparr>"
proof -
  have "Flatten_forward 2 \<lparr>shape = [1, 2, 1, 1], data = replicate 2 (1::real)\<rparr>
          = Inr \<lparr>shape = [1, 1, 2], data = [1, 1]\<rparr>"
    by code_simp
  then show ?thesis
    by (simp add: head_forward_def example_collaborators_def example_rpn_def)
qed

lemma example_bbox_coeff:
  "head_forward example_collaborators (conv_bbox_coeff example_rpn) x
     = Inr \<lparr>shape = [1, 1, 4], data = [1, 1, 1, 1]\<rparr>"
proof -
  have "Flatten_forward 4 \<lparr>shape = [1, 4, 1, 1], data = replicate 4 (1::real)\<rparr>
          = Inr \<lparr>shape = [1, 1, 4], data = [1, 1, 1, 1]\<rparr>"
    by code_simp
  then show ?thesis
    by (simp add: head_forward_def example_collaborators_def example_rpn_def)
qed

lemma example_rpn_fields:
  "conv (example_rpn\<lparr>training := b\<rparr>) = conv example_rpn"
  "conv_bbox_score (example_rpn\<lparr>training := b\<rparr>) = conv_bbox_score example_rpn"
  "conv_bbox_coeff (example_rpn\<lparr>training := b\<rparr>) = conv_bbox_coeff example_rpn"
  "proposal (example_rpn\<lparr>training := b\<rparr>) = example_proposal"
  "anchor_refine (example_rpn\<lparr>training := b\<rparr>) = example_anchor_refine"
  "proposal_refine (example_rpn\<lparr>training := b\<rparr>) = example_proposal_refine"
  "training (example_rpn\<lparr>training := b\<rparr>) = b"
  by (simp_all add: example_rpn_def)

section \<open>RPN.forward outside training\<close>

text \<open>
  Claim C3. With \<^verbatim>\<open>self.training\<close> false, \<^verbatim>\<open>RPN.forward\<close> returns normally
  exactly when the convolutions and the \<^verbatim>\<open>Proposal\<close> layer do, and the tuple is then
  the \<^verbatim>\<open>Proposal\<close> layer's boxes, \<^verbatim>\<open>None\<close>, \<^verbatim>\<open>None\<close> and three losses equal
  to the number \<open>0\<close>. Neither \<^verbatim>\<open>AnchorRefine\<close> nor \<^verbatim>\<open>ProposalRefine\<close> is
  invoked: whatever the two layers are (even ones that raise) and whatever the ground
  truth is, the outcome is the same.
\<close>

theorem RPN_forward_inference:
  assumes inf: "\<not> training self"
  shows "(fst (RPN_forward E self feature_map gt_boxes gt_classes) = Inr returned
            \<longleftrightarrow>
          (\<exists>out bbox_score bbox_coeff roi_scores rois a.
              conv_layer E (conv self) feature_map = Inr out
            \<and> head_forward E (conv_bbox_score self) out = Inr bbox_score
            \<and> head_forward E (conv_bbox_coeff self) out = Inr bbox_coeff
            \<and> proposal self (anchors self) bbox_score bbox_coeff = (Inr (roi_scores, rois), a)
            \<and> returned = [FloatTensor rois, PyNone, PyNone,
                           Num (PyNum 0), Num (PyNum 0), Num (PyNum 0)]))
         \<and> fst (RPN_forward E (self\<lparr>anchor_refine := ar, proposal_refine := pr\<rparr>)
                  feature_map gt_boxes' gt_classes')
             = fst (RPN_forward E self feature_map gt_boxes gt_classes)"
  using inf
  by (auto simp add: RPN_forward_def Let_def split: sum.splits prod.splits)

theorem RPN_forward_inference_witness:
  "\<not> training (example_rpn\<lparr>training := False\<rparr>)
   \<and> fst (RPN_forward example_collaborators
            (example_rpn\<lparr>training := False, anchor_refine := (\<lambda>a g. (Inl RuntimeError, a)),
                          proposal_refine := (\<lambda>r g c. Inl RuntimeError)\<rparr>)
            example_feature_map example_gt_boxes example_gt_classes)
     = Inr [FloatTensor example_rois, PyNone, PyNone, Num (PyNum 0), Num (PyNum 0), Num (PyNum 0)]"
proof -
  let ?self = "example_rpn\<lparr>training := False\<rparr>"
  have inf: "\<not> training ?self" by simp
  have run: "fst (RPN_forward example_collaborators ?self
                   example_feature_map example_gt_boxes example_gt_classes)
      = Inr [FloatTensor example_rois, PyNone, PyNone, Num (PyNum 0), Num (PyNum 0), Num (PyNum 0)]"
    by (simp add: RPN_forward_def example_rpn_fields example_conv example_bbox_score
          example_bbox_coeff example_proposal_def)
  from RPN_forward_inference[OF inf, where E = example_collaborators
        and feature_map = example_feature_map and gt_boxes = example_gt_boxes
        and gt_classes = example_gt_classes and ar = "\<lambda>a g. (Inl RuntimeError, a)"
        and pr = "\<lambda>r g c. Inl RuntimeError" and gt_boxes' = example_gt_boxes
        and gt_classes' = example_gt_classes]
  have "fst (RPN_forward example_collaborators
            (?self\<lparr>anchor_refine := (\<lambda>a g. (Inl RuntimeError, a)),
                          proposal_refine := (\<lambda>r g c. Inl RuntimeError)\<rparr>)
            example_feature_map example_gt_boxes example_gt_classes)
      = fst (RPN_forward example_collaborators ?self
                   example_feature_map example_gt_boxes example_gt_classes)"
    by blast
  with run inf show ?thesis by simp
qed

section \<open>The tuple between RPN.forward and FasterRCNN.forward\<close>

lemma RPN_forward_returns_six:
  "fst (RPN_forward E self feature_map gt_boxes gt_classes) = Inr returned
     \<Longrightarrow> length returned = 6"
  by (auto simp add: RPN_forward_def Let_def split: sum.splits prod.splits if_splits)

text \<open>
  Claim C1. \<^verbatim>\<open>RPN.forward\<close> returns six values and \<^verbatim>\<open>FasterRCNN.forward\<close> binds
  four names, so the unpacking fails on every forward pass: whenever the backbone and the
  RPN return normally, \<^verbatim>\<open>FasterRCNN.forward\<close> raises ValueError, and otherwise it
  raises what they raised. It never returns a value.
\<close>

theorem FasterRCNN_forward_unpack_fails:
  "fst (FasterRCNN_forward E self images gt_boxes gt_classes) =
     (case cnn self images of
        Inl e \<Rightarrow> Inl e
      | Inr feature_map \<Rightarrow>
          (case fst (RPN_forward E (rpn self) feature_map gt_boxes gt_classes) of
             Inl e \<Rightarrow> Inl e
           | Inr returned \<Rightarrow> Inl ValueError))"
proof (cases "cnn self images")
  case (Inl e)
  then show ?thesis by (simp add: FasterRCNN_forward_def)
next
  case fm: (Inr feature_map)
  show ?thesis
  proof (cases "RPN_forward E (rpn self) feature_map gt_boxes gt_classes")
    case (Pair r rpn1)
    show ?thesis
    proof (cases r)
      case (Inl e)
      with Pair fm show ?thesis by (simp add: FasterRCNN_forward_def)
    next
      case (Inr returned)
      with Pair have "length returned = 6"
        using RPN_forward_returns_six[of E "rpn self" feature_map gt_boxes gt_classes returned]
        by simp
      then have "\<And>a b c d. returned \<noteq> [a, b, c, d]" by auto
      with Pair Inr fm show ?thesis
        by (simp add: FasterRCNN_forward_def Let_def split: list.splits)
    qed
  qed
qed

lemma example_RPN_forward_eval:
  "fst (RPN_forward example_collaborators (example_rpn\<lparr>training := False\<rparr>)
          example_feature_map example_gt_boxes example_gt_classes)
     = Inr [FloatTensor example_rois, PyNone, PyNone, Num (PyNum 0), Num (PyNum 0), Num (PyNum 0)]"
  by (simp add: RPN_forward_def example_rpn_fields example_conv example_bbox_score
        example_bbox_coeff example_proposal_def)

theorem FasterRCNN_forward_unpack_fails_witness:
  "fst (FasterRCNN_forward example_collaborators
          (example_model\<lparr>training := False, rpn := example_rpn\<lparr>training := False\<rparr>\<rparr>)
          example_feature_map example_gt_boxes example_gt_classes) = Inl ValueError"
  using example_RPN_forward_eval
    FasterRCNN_forward_unpack_fails[of example_collaborators
      "example_model\<lparr>training := False, rpn := example_rpn\<lparr>training := False\<rparr>\<rparr>"
      example_feature_map example_gt_boxes example_gt_classes]
  by (simp add: example_model_def)

section \<open>Construction of the small instance\<close>

lemma example_RPN_init: "RPN_init example_collaborators example_config = Inr example_rpn"
  by (simp add: RPN_init_def example_collaborators_def example_config_def example_rpn_def)

section \<open>The box transform\<close>

text \<open>
  Claim C8. For non-degenerate boxes \<open>A\<close> and \<open>B\<close> (positive width and height),
  decoding from \<open>A\<close> the coefficients that encode \<open>B\<close> relative to \<open>A\<close> gives \<open>B\<close>
  back. Over the reals the round trip is exact, hence within every tolerance.
\<close>

theorem decode_encode:
  assumes "non_degenerate A" "non_degenerate B"
  shows "decode A (encode A B) = B"
proof -
  from assms have pos: "0 < box_w A" "0 < box_h A" "0 < box_w B" "0 < box_h B"
    by (simp_all add: non_degenerate_def)
  have w: "box_w A * exp (ln (box_w B / box_w A)) = box_w B" using pos by simp
  have h: "box_h A * exp (ln (box_h B / box_h A)) = box_h B" using pos by simp
  have cx: "box_cx A + (box_cx B - box_cx A) / box_w A * box_w A = box_cx B" using pos by simp
  have cy: "box_cy A + (box_cy B - box_cy A) / box_h A * box_h A = box_cy B" using pos by simp
  show ?thesis
    unfolding decode_def encode_def Let_def
    apply (simp only: coefficients.simps w h cx cy)
    apply (simp add: box_cx_def box_cy_def box_w_def box_h_def)
    done
qed

theorem decode_encode_witness:
  "non_degenerate \<lparr>xmin = 0, ymin = 0, xmax = 16, ymax = 16\<rparr>
   \<and> non_degenerate \<lparr>xmin = 4, ymin = 2, xmax = 12, ymax = 34\<rparr>
   \<and> decode \<lparr>xmin = 0, ymin = 0, xmax = 16, ymax = 16\<rparr>
        (encode \<lparr>xmin = 0, ymin = 0, xmax = 16, ymax = 16\<rparr>
                \<lparr>xmin = 4, ymin = 2, xmax = 12, ymax = 34\<rparr>)
     = \<lparr>xmin = 4, ymin = 2, xmax = 12, ymax = 34\<rparr>"
proof -
  have a: "non_degenerate \<lparr>xmin = 0, ymin = 0, xmax = 16, ymax = 16\<rparr>"
    by (simp add: non_degenerate_def box_w_def box_h_def)
  have b: "non_degenerate \<lparr>xmin = 4, ymin = 2, xmax = 12, ymax = 34\<rparr>"
    by (simp add: non_degenerate_def box_w_def box_h_def)
  from decode_encode[OF a b] a b show ?thesis by simp
qed

section \<open>The regression loss of the head\<close>

lemma smooth_l1_zero_iff: "smooth_l1 z = 0 \<longleftrightarrow> z = 0"
proof
  assume a: "smooth_l1 z = 0"
  show "z = 0"
  proof (cases "\<bar>z\<bar> < 1")
    case True
    with a show ?thesis by (simp add: smooth_l1_def)
  next
    case False
    with a show ?thesis by (simp add: smooth_l1_def)
  qed
qed (simp add: smooth_l1_def)

text \<open>
  The expression of the head's regression loss,
  \<^verbatim>\<open>F.smooth_l1_loss(pred_rois_coeffs, gt_rois_coeffs)\<close>, carries no mask: its value
  is the mean of the smooth-L1 of prediction minus target over all entries of the two
  tensors, and an entry whose target is zero adds the smooth-L1 of the predicted
  coefficient itself.
\<close>

lemma rcnn_bbox_loss_all_entries:
  assumes sh: "shape pred = shape gt" and wf: "wf_tensor pred" "wf_tensor gt"
    and ne: "0 < numel pred"
  shows "rcnn_bbox_regression_loss pred gt
           = Inr (Some ((\<Sum>i<numel pred. smooth_l1 (data pred ! i - data gt ! i))
                        / real (numel pred)))
         \<and> (\<forall>i<numel pred. data gt ! i = 0 \<longrightarrow>
               (smooth_l1 (data pred ! i - data gt ! i) = 0 \<longleftrightarrow> data pred ! i = 0))"
proof -
  let ?n = "numel pred"
  let ?zs = "map (\<lambda>(x, y). smooth_l1 (x - y)) (zip (data pred) (data gt))"
  have lp: "length (data pred) = ?n" using wf(1) by (simp add: wf_tensor_def)
  have lg: "length (data gt) = ?n" using wf(2) sh by (simp add: wf_tensor_def numel_def)
  have len: "length ?zs = ?n" using lp lg by simp
  have "sum_list ?zs = (\<Sum>i = 0..<length ?zs. ?zs ! i)" by (rule sum_list_sum_nth)
  also have "\<dots> = (\<Sum>i<?n. smooth_l1 (data pred ! i - data gt ! i))"
    unfolding len using lp lg by (intro sum.cong) (auto simp add: lessThan_atLeast0)
  finally have s: "sum_list ?zs = (\<Sum>i<?n. smooth_l1 (data pred ! i - data gt ! i))" .
  have "?zs \<noteq> []" using len ne by auto
  then have "mean ?zs = Some (sum_list ?zs / real ?n)" using len by (simp add: mean_def)
  then show ?thesis using sh s
    by (simp add: rcnn_bbox_regression_loss_def smooth_l1_loss_def smooth_l1_zero_iff)
qed

lemma rcnn_bbox_loss_all_entries_example:
  "rcnn_bbox_regression_loss \<lparr>shape = [1, 1, 8], data = [3, 0, 0, 0, 1, 1, 1, 1]\<rparr>
       \<lparr>shape = [1, 1, 8], data = [0, 0, 0, 0, 1, 1, 1, 1]\<rparr>
     = Inr (Some ((\<Sum>i<8. smooth_l1 ([3, 0, 0, 0, 1, 1, 1, 1] ! i - [0, 0, 0, 0, 1, 1, 1, 1] ! i)) / 8))"
proof -
  let ?p = "\<lparr>shape = [1, 1, 8], data = [3, 0, 0, 0, 1, 1, 1, 1 :: real]\<rparr>"
  let ?g = "\<lparr>shape = [1, 1, 8], data = [0, 0, 0, 0, 1, 1, 1, 1 :: real]\<rparr>"
  have h: "shape ?p = shape ?g" "wf_tensor ?p" "wf_tensor ?g" "0 < numel ?p"
    by (simp_all add: wf_tensor_def numel_def)
  have n: "numel ?p = 8" by (simp add: numel_def)
  have "rcnn_bbox_regression_loss ?p ?g
          = Inr (Some ((\<Sum>i<numel ?p. smooth_l1 (data ?p ! i - data ?g ! i)) / real (numel ?p)))"
    using rcnn_bbox_loss_all_entries[OF h] by (rule conjunct1)
  then show ?thesis unfolding n by simp
qed

text \<open>
  The same expression on two predictions that differ only where the target is zero: the
  values differ.
\<close>

lemma rcnn_bbox_loss_scores_other_slices:
  "rcnn_bbox_regression_loss \<lparr>shape = [1, 1, 8], data = [3, 0, 0, 0, 1, 1, 1, 1]\<rparr>
       \<lparr>shape = [1, 1, 8], data = [0, 0, 0, 0, 1, 1, 1, 1]\<rparr> = Inr (Some (5 / 16))
   \<and> rcnn_bbox_regression_loss \<lparr>shape = [1, 1, 8], data = [0, 0, 0, 0, 1, 1, 1, 1]\<rparr>
       \<lparr>shape = [1, 1, 8], data = [0, 0, 0, 0, 1, 1, 1, 1]\<rparr> = Inr (Some 0)"
  by (simp add: rcnn_bbox_regression_loss_def smooth_l1_loss_def mean_def smooth_l1_def)

section \<open>The RPN losses, image by image\<close>

lemma block_nth:
  assumes "(i + 1) * d \<le> length xs"
  shows "block xs d i = map (\<lambda>k. xs ! (i * d + k)) [0..<d]"
proof (rule nth_equalityI)
  show "length (block xs d i) = length (map (\<lambda>k. xs ! (i * d + k)) [0..<d])"
    using assms by (simp add: block_def)
next
  fix k assume "k < length (block xs d i)"
  then have k: "k < d" by (simp add: block_def)
  have "i * d \<le> length xs" using assms by simp
  then show "block xs d i ! k = map (\<lambda>k. xs ! (i * d + k)) [0..<d] ! k"
    using k by (simp add: block_def)
qed

lemma masked_map: "masked (map g I) (map f I) = map f (filter g I)"
  by (induction I) (simp_all add: masked_def)

lemma block_concat:
  assumes "\<forall>r\<in>set rows. length r = d" "j < length rows"
  shows "block (concat rows) d j = rows ! j"
  using assms
proof (induction rows arbitrary: j)
  case Nil
  then show ?case by simp
next
  case (Cons r rows)
  then have lr: "length r = d" by simp
  show ?case
  proof (cases j)
    case 0
    then show ?thesis using lr by (simp add: block_def)
  next
    case (Suc j')
    have "block (concat (r # rows)) d (Suc j') = block (concat rows) d j'"
      using lr by (simp add: block_def)
    then show ?thesis using Cons Suc by simp
  qed
qed

lemma blocks_concat:
  assumes "\<forall>r\<in>set rows. length r = d"
  shows "map (\<lambda>j. block (concat rows) d j) [0..<length rows] = rows"
  using assms by (intro nth_equalityI) (simp_all add: block_concat)

lemma succ_block_le:
  fixes n i :: nat
  assumes "n < N" "i < X"
  shows "(n * X + i + 1) * d \<le> N * X * d"
proof -
  have "n * X + i < N * X" using assms by (rule row_major_lt)
  then have "n * X + i + 1 \<le> N * X" by simp
  then show ?thesis by (rule mult_le_mono1)
qed

lemma row_at_value:
  assumes sh: "shape x = [N, X]" and wf: "wf_tensor x" and n: "n < N"
  shows "row_at x n = Inr \<lparr>shape = [X], data = map (\<lambda>i. data x ! (n * X + i)) [0..<X]\<rparr>"
proof -
  have "(n + 1) * X \<le> length (data x)"
    using wf sh n by (simp add: wf_tensor_def numel_def) (metis Suc_leI mult_Suc mult_le_mono1 add.commute)
  then show ?thesis using sh n by (simp add: row_at_def block_nth)
qed

lemma select_vec_value:
  assumes sh: "shape x = [N, X]" and wf: "wf_tensor x" and n: "n < N"
    and m: "shape msk = [X]" "data msk = map g [0..<X]"
  shows "select_vec x n msk
           = Inr \<lparr>shape = [length (filter g [0..<X])],
                  data = map (\<lambda>i. data x ! (n * X + i)) (filter g [0..<X])\<rparr>"
proof -
  have "(n + 1) * X \<le> length (data x)"
    using wf sh n by (simp add: wf_tensor_def numel_def) (metis Suc_leI mult_Suc mult_le_mono1 add.commute)
  then have b: "block (data x) X n = map (\<lambda>i. data x ! (n * X + i)) [0..<X]" by (rule block_nth)
  have l: "length (filter id (map g [0..<X])) = length (filter g [0..<X])"
    by (simp add: filter_map o_def)
  show ?thesis using sh n m by (simp add: select_vec_def b masked_map l)
qed

lemma select_rows_value:
  assumes sh: "shape x = [N, X, d]" and wf: "wf_tensor x" and n: "n < N"
    and m: "shape msk = [X]" "data msk = map g [0..<X]"
  shows "select_rows x n msk
           = Inr \<lparr>shape = [length (filter g [0..<X]), d],
                  data = concat (map (\<lambda>i. map (\<lambda>k. at3 x n i k) [0..<d]) (filter g [0..<X]))\<rparr>"
proof -
  have len: "length (data x) = N * X * d" using wf sh by (simp add: wf_tensor_def numel_def)
  have b: "block (data x) d (n * X + i) = map (\<lambda>k. at3 x n i k) [0..<d]" if "i < X" for i
  proof -
    have "(n * X + i + 1) * d \<le> length (data x)" unfolding len using n that by (rule succ_block_le)
    then show ?thesis by (simp add: block_nth at3_def sh)
  qed
  have l: "length (filter id (map g [0..<X])) = length (filter g [0..<X])"
    by (simp add: filter_map o_def)
  have e: "map (\<lambda>i. block (data x) d (n * X + i)) (filter g [0..<X])
          = map (\<lambda>i. map (\<lambda>k. at3 x n i k) [0..<d]) (filter g [0..<X])"
    by (rule map_cong) (auto simp add: b)
  show ?thesis using sh n m by (simp add: select_rows_def masked_map l e)
qed

lemma cross_entropy_concat:
  assumes "\<forall>r\<in>set rows. length r = C"
  shows "cross_entropy \<lparr>shape = [length rows, C], data = concat rows\<rparr>
           \<lparr>shape = [length rows], data = ts\<rparr> = cross_entropy_rows rows ts"
  using blocks_concat[OF assms] by (simp add: cross_entropy_def)

lemma sampled_eq:
  "shape labels = [N, X] \<Longrightarrow>
     sampled labels n = filter (\<lambda>i. 0 \<le> data labels ! (n * X + i)) [0..<X]"
  by (simp add: sampled_def at2_def)

lemma foreground_eq:
  "shape labels = [N, X] \<Longrightarrow>
     foreground labels n = filter (\<lambda>i. data labels ! (n * X + i) = 1) [0..<X]"
  by (simp add: foreground_def at2_def)

lemma at2_eq: "shape labels = [N, X] \<Longrightarrow> at2 labels n i = data labels ! (n * X + i)"
  by (simp add: at2_def)

lemma rpn_image_class_loss_value:
  assumes "shape labels = [N, X]" "wf_tensor labels" "shape bsa = [N, X, d]" "wf_tensor bsa"
    and n: "n < N"
  shows "rpn_image_class_loss labels bsa n
           = cross_entropy_rows
               (map (\<lambda>i. map (\<lambda>k. at3 bsa n i k) [0..<d]) (sampled labels n))
               (map (\<lambda>i. long (1 - at2 labels n i)) (sampled labels n))"
proof -
  let ?g = "\<lambda>i. 0 \<le> data labels ! (n * X + i)"
  let ?S = "filter ?g [0..<X]"
  let ?row = "\<lparr>shape = [X], data = map (\<lambda>i. data labels ! (n * X + i)) [0..<X]\<rparr>"
  let ?msk = "tmap (\<lambda>l. 0 \<le> l) ?row"
  have r: "row_at labels n = Inr ?row" using assms(1,2) n by (rule row_at_value)
  have m: "shape ?msk = [X]" "data ?msk = map ?g [0..<X]" by (simp_all add: tmap_def o_def)
  note sr = select_rows_value[OF assms(3,4) n m]
  note sv = select_vec_value[OF assms(1,2) n m]
  let ?rows = "map (\<lambda>i. map (\<lambda>k. at3 bsa n i k) [0..<d]) ?S"
  have lr: "length ?rows = length ?S" by simp
  have ar: "\<forall>r\<in>set ?rows. length r = d" by auto
  have ce: "cross_entropy \<lparr>shape = [length ?S, d], data = concat ?rows\<rparr>
              \<lparr>shape = [length ?S], data = ts\<rparr> = cross_entropy_rows ?rows ts" for ts
    using cross_entropy_concat[OF ar, of ts] by (simp only: lr)
  show ?thesis
    unfolding rpn_image_class_loss_def r sampled_eq[OF assms(1)] at2_eq[OF assms(1)]
    by (simp add: Let_def sr sv ce) (simp add: tmap_def o_def ce)
qed

lemma zip_concat_map:
  assumes "\<forall>i\<in>set F. length (f i) = length (g i)"
  shows "zip (concat (map f F)) (concat (map g F)) = concat (map (\<lambda>i. zip (f i) (g i)) F)"
  using assms by (induction F) simp_all

lemma rpn_image_bbox_loss_value:
  assumes "shape labels = [N, X]" "wf_tensor labels" "shape bca = [N, X, d]" "wf_tensor bca"
    "shape tc = [N, X, d]" "wf_tensor tc" and n: "n < N"
  shows "rpn_image_bbox_loss labels bca tc n = Inr (spec_image_bbox_loss labels bca tc n)"
proof -
  let ?g = "\<lambda>i. data labels ! (n * X + i) = 1"
  let ?F = "filter ?g [0..<X]"
  let ?row = "\<lparr>shape = [X], data = map (\<lambda>i. data labels ! (n * X + i)) [0..<X]\<rparr>"
  let ?msk = "tmap (\<lambda>l. l = 1) ?row"
  have r: "row_at labels n = Inr ?row" using assms(1,2) n by (rule row_at_value)
  have m: "shape ?msk = [X]" "data ?msk = map ?g [0..<X]" by (simp_all add: tmap_def o_def)
  note sp = select_rows_value[OF assms(3,4) n m]
  note st = select_rows_value[OF assms(5,6) n m]
  have z: "zip (concat (map (\<lambda>i. map (\<lambda>k. at3 bca n i k) [0..<d]) ?F))
               (concat (map (\<lambda>i. map (\<lambda>k. at3 tc n i k) [0..<d]) ?F))
           = concat (map (\<lambda>i. map (\<lambda>k. (at3 bca n i k, at3 tc n i k)) [0..<d]) ?F)"
    by (subst zip_concat_map) (simp_all add: zip_map_map zip_same_conv_map o_def)
  show ?thesis
    unfolding rpn_image_bbox_loss_def r spec_image_bbox_loss_def foreground_eq[OF assms(1)]
    by (simp add: Let_def sp st smooth_l1_loss_def z map_concat o_def assms(3))
qed

lemma cross_entropy_rows_map:
  assumes "\<forall>i\<in>set S. g i \<noteq> - 100 \<and> 0 \<le> g i \<and> g i < int (length (f i))"
  shows "cross_entropy_rows (map f S) (map g S) = Inr (mean (map (\<lambda>i. nll (f i) (nat (g i))) S))"
proof -
  have a: "list_all2 (\<lambda>row t. t = - 100 \<or> (0 \<le> t \<and> t < int (length row))) (map f S) (map g S)"
    using assms by (simp add: list_all2_map1 list_all2_map2 list_all2_same)
  have b: "filter (\<lambda>(row, t). t \<noteq> - 100) (zip (map f S) (map g S)) = zip (map f S) (map g S)"
    using assms by (auto simp add: filter_id_conv zip_map_map zip_same_conv_map)
  show ?thesis
    unfolding cross_entropy_rows_def b using a
    by (simp add: zip_map_map zip_same_conv_map o_def)
qed

lemma long_one_minus:
  assumes "l \<in> {0, 1}"
  shows "long (1 - l) = 1 - \<lfloor>l\<rfloor>" "long (1 - l) = (if l = 1 then 0 else 1)"
  using assms by (auto simp add: long_def)

lemma nll_pair:
  "nll [a, b] (if l = 1 then 0 else 1) = spec_anchor_cross_entropy a b l"
proof -
  have p: "0 < exp a + exp b" by (simp add: add_pos_pos)
  then have q: "exp a + exp b \<noteq> 0" by simp
  show ?thesis
    by (simp add: nll_def spec_anchor_cross_entropy_def ln_div p q)
qed

lemma upt2: "[0..<2] = [0, 1]"
  by (simp add: upt_rec numeral_2_eq_2)

lemma rpn_image_class_loss_spec:
  assumes sh: "shape labels = [N, X]" "wf_tensor labels" "shape bsa = [N, X, 2]" "wf_tensor bsa"
    and n: "n < N" and labs: "\<forall>i<X. at2 labels n i \<in> {- 1, 0, 1}"
  shows "rpn_image_class_loss labels bsa n = Inr (spec_image_class_loss labels bsa n)"
proof -
  have S: "at2 labels n i \<in> {0, 1}" if "i \<in> set (sampled labels n)" for i
    using that labs by (auto simp add: sampled_def sh(1))
  have t: "\<forall>i\<in>set (sampled labels n).
             long (1 - at2 labels n i) \<noteq> - 100 \<and> 0 \<le> long (1 - at2 labels n i)
             \<and> long (1 - at2 labels n i) < int (length (map (\<lambda>k. at3 bsa n i k) [0..<2]))"
    using S by (auto simp add: long_one_minus(2))
  have e: "nll (map (at3 bsa n i) [0..<2]) (nat (long (1 - at2 labels n i)))
             = spec_anchor_cross_entropy (at3 bsa n i 0) (at3 bsa n i 1) (at2 labels n i)"
    if "i \<in> set (sampled labels n)" for i
    using nll_pair[of "at3 bsa n i 0" "at3 bsa n i 1" "at2 labels n i"] S[OF that]
    by (auto simp add: long_one_minus(2) upt2)
  have me: "map (\<lambda>i. nll (map (at3 bsa n i) [0..<2]) (nat (long (1 - at2 labels n i)))) (sampled labels n)
        = map (\<lambda>i. spec_anchor_cross_entropy (at3 bsa n i 0) (at3 bsa n i 1) (at2 labels n i))
              (sampled labels n)"
    by (rule map_cong) (simp_all add: e)
  show ?thesis
    unfolding rpn_image_class_loss_value[OF sh n] cross_entropy_rows_map[OF t]
      spec_image_class_loss_def me by (rule refl)
qed

section \<open>The RPN losses over the batch\<close>

lemma rpn_loss_loop_value:
  assumes "\<forall>n\<in>set ns. rpn_image_class_loss labels bsa n = Inr (c n)
                       \<and> rpn_image_bbox_loss labels bca tc n = Inr (b n)"
  shows "rpn_loss_loop labels bsa bca tc ns (ca, ba)
           = Inr (fold (\<lambda>n a. py_add a (Scalar (c n))) ns ca,
                  fold (\<lambda>n a. py_add a (Scalar (b n))) ns ba)"
  using assms by (induction ns arbitrary: ca ba) simp_all

lemma rpn_loss_loop_cong:
  assumes "\<forall>n\<in>set ns. rpn_image_class_loss labels bsa n = rpn_image_class_loss labels bsa' n
              \<and> rpn_image_bbox_loss labels bca tc n = rpn_image_bbox_loss labels bca' tc' n"
  shows "rpn_loss_loop labels bsa bca tc ns acc = rpn_loss_loop labels bsa' bca' tc' ns acc"
  using assms
proof (induction ns arbitrary: acc)
  case Nil
  then show ?case by simp
next
  case (Cons n ns)
  obtain ca ba where acc: "acc = (ca, ba)" by (cases acc)
  from Cons show ?case unfolding acc by (simp split: sum.splits)
qed

lemma fold_py_add_Scalar:
  "fold (\<lambda>n a. py_add a (Scalar (c n))) ns (Scalar s)
     = Scalar (if s \<noteq> None \<and> list_all (\<lambda>n. c n \<noteq> None) ns
               then Some (the s + sum_list (map (\<lambda>n. the (c n)) ns)) else None)"
proof (induction ns arbitrary: s)
  case Nil
  then show ?case by (cases s) simp_all
next
  case (Cons n ns)
  show ?case
  proof (cases s)
    case None
    then show ?thesis by (simp add: Cons)
  next
    case (Some u)
    then show ?thesis by (cases "c n") (simp_all add: Cons add.assoc)
  qed
qed

lemma loop_sum:
  assumes "ns \<noteq> []"
  shows "fold (\<lambda>n a. py_add a (Scalar (c n))) ns (PyNum 0) = Scalar (opt_sum c ns)"
proof -
  obtain n ns' where ns: "ns = n # ns'" using assms by (cases ns) auto
  show ?thesis unfolding ns opt_sum_def
    by (cases "c n") (simp_all add: fold_py_add_Scalar)
qed

lemma batch_average_div:
  assumes "0 < N"
  shows "py_div_int (Scalar (opt_sum c [0..<N])) N
           = Inr (Scalar (spec_batch_average (map c [0..<N])))"
  using assms by (simp add: opt_sum_def spec_batch_average_def list_all_iff o_def)

lemma rpn_losses_value:
  assumes lab: "size0 labels = Inr N" and gt: "size0 gt_boxes = Inr N" and pos: "0 < N"
    and img: "\<forall>n<N. rpn_image_class_loss labels bsa n = Inr (c n)
                    \<and> rpn_image_bbox_loss labels bca tc n = Inr (b n)"
  shows "rpn_losses labels bsa bca tc gt_boxes
           = Inr (Scalar (spec_batch_average (map c [0..<N])),
                  Scalar (spec_batch_average (map b [0..<N])),
                  Scalar (lift2 (+) (spec_batch_average (map c [0..<N]))
                                    (spec_batch_average (map b [0..<N]))))"
proof -
  have ne: "[0..<N] \<noteq> []" using pos by simp
  have i: "\<forall>n\<in>set [0..<N]. rpn_image_class_loss labels bsa n = Inr (c n)
                       \<and> rpn_image_bbox_loss labels bca tc n = Inr (b n)"
    using img by simp
  have loop: "rpn_loss_loop labels bsa bca tc [0..<N] (PyNum 0, PyNum 0)
                = Inr (Scalar (opt_sum c [0..<N]), Scalar (opt_sum b [0..<N]))"
    unfolding rpn_loss_loop_value[OF i] loop_sum[OF ne] by (rule refl)
  show ?thesis
    by (simp add: rpn_losses_def lab gt loop batch_average_div[OF pos]
          del: py_div_int.simps)
qed

text \<open>
  Claim C7. In a training forward pass over a batch of \<open>N\<close> images (labels in
  \<open>{-1, 0, 1}\<close>, tensors of the documented shapes), \<^verbatim>\<open>rpn_class_loss\<close> is
  \<open>1/N\<close> times the sum over the images of the image's mean cross-entropy over its
  sampled anchors, \<^verbatim>\<open>rpn_bbox_loss\<close> is \<open>1/N\<close> times the sum over the images of
  the image's mean smooth-L1 over its foreground anchors, and \<^verbatim>\<open>rpn_loss\<close> is the
  sum of the two. An image without sampled or without foreground anchors has no mean
  (\<open>nan\<close>), and then neither have the losses.
\<close>

theorem rpn_losses_batch_average:
  assumes sh: "shape labels = [N, X]" "wf_tensor labels"
      "shape bbox_score_anchors = [N, X, 2]" "wf_tensor bbox_score_anchors"
      "shape bbox_coeff_anchors = [N, X, d]" "wf_tensor bbox_coeff_anchors"
      "shape target_coeffs = [N, X, d]" "wf_tensor target_coeffs"
    and gt: "size0 gt_boxes = Inr N" and pos: "0 < N"
    and labs: "\<forall>n<N. \<forall>i<X. at2 labels n i \<in> {- 1, 0, 1}"
  shows "rpn_losses labels bbox_score_anchors bbox_coeff_anchors target_coeffs gt_boxes
           = Inr (Scalar (spec_batch_average
                            (map (spec_image_class_loss labels bbox_score_anchors) [0..<N])),
                  Scalar (spec_batch_average
                            (map (spec_image_bbox_loss labels bbox_coeff_anchors target_coeffs)
                                 [0..<N])),
                  Scalar (lift2 (+)
                    (spec_batch_average
                       (map (spec_image_class_loss labels bbox_score_anchors) [0..<N]))
                    (spec_batch_average
                       (map (spec_image_bbox_loss labels bbox_coeff_anchors target_coeffs)
                            [0..<N]))))"
proof -
  have lab: "size0 labels = Inr N" using sh(1) by (simp add: size0_def)
  have img: "\<forall>n<N. rpn_image_class_loss labels bbox_score_anchors n
                      = Inr (spec_image_class_loss labels bbox_score_anchors n)
                  \<and> rpn_image_bbox_loss labels bbox_coeff_anchors target_coeffs n
                      = Inr (spec_image_bbox_loss labels bbox_coeff_anchors target_coeffs n)"
    using rpn_image_class_loss_spec[OF sh(1-4)] rpn_image_bbox_loss_value[OF sh(1,2,5-8)] labs
    by simp
  show ?thesis by (rule rpn_losses_value[OF lab gt pos img])
qed

lemma less3: "(i::nat) < 3 \<longleftrightarrow> i = 0 \<or> i = 1 \<or> i = 2"
  by auto

lemma example_labels_range: "\<forall>n<1. \<forall>i<3. at2 example_labels n i \<in> {- 1, 0, 1}"
  by (auto simp add: at2_def example_labels_def less3)

theorem rpn_losses_batch_average_witness:
  "rpn_losses example_labels example_scores example_coeffs example_targets example_gt_boxes
     = Inr (Scalar (spec_batch_average
                      (map (spec_image_class_loss example_labels example_scores) [0..<1])),
            Scalar (spec_batch_average
                      (map (spec_image_bbox_loss example_labels example_coeffs example_targets)
                           [0..<1])),
            Scalar (lift2 (+)
              (spec_batch_average
                 (map (spec_image_class_loss example_labels example_scores) [0..<1]))
              (spec_batch_average
                 (map (spec_image_bbox_loss example_labels example_coeffs example_targets)
                      [0..<1]))))"
proof -
  have sh: "shape example_labels = [1, 3]" "wf_tensor example_labels"
      "shape example_scores = [1, 3, 2]" "wf_tensor example_scores"
      "shape example_coeffs = [1, 3, 4]" "wf_tensor example_coeffs"
      "shape example_targets = [1, 3, 4]" "wf_tensor example_targets"
    by (simp_all add: example_labels_def example_scores_def example_coeffs_def
          example_targets_def wf_tensor_def numel_def)
  have gt: "size0 example_gt_boxes = Inr 1" by (simp add: example_gt_boxes_def size0_def)
  have pos: "0 < (1::nat)" by simp
  show ?thesis
    by (rule rpn_losses_batch_average[OF sh gt pos example_labels_range])
qed

lemma upt3: "[0..<3] = [0, 1, 2]"
  by (simp add: upt_rec numeral_3_eq_3)

lemma upt4: "[0..<4] = [0, 1, 2, 3]"
  by code_simp

lemma example_foreground: "foreground example_labels 0 = [0]"
  by (simp add: foreground_def at2_def example_labels_def upt3)

lemma example_sampled: "sampled example_labels 0 = [0, 1]"
  by (simp add: sampled_def at2_def example_labels_def upt3)

lemma example_bbox_loss_value:
  "spec_image_bbox_loss example_labels example_coeffs example_targets 0 = Some (3 / 8)"
  by (simp add: spec_image_bbox_loss_def example_foreground)
     (simp add: at3_def example_coeffs_def example_targets_def upt4 mean_def smooth_l1_def)

section \<open>The columns of the score tensor\<close>

text \<open>
  Claim C5. For an image whose labels are in \<open>{-1, 0, 1}\<close>, the classification loss
  is \<^verbatim>\<open>F.cross_entropy\<close> of the score rows of the sampled anchors against the
  targets \<open>1 - label\<close>; so a foreground anchor (label 1) is scored against score
  column 0 and a background anchor (label 0) against column 1.
\<close>

theorem rpn_class_loss_target_columns:
  assumes sh: "shape labels = [N, X]" "wf_tensor labels"
      "shape bbox_score_anchors = [N, X, 2]" "wf_tensor bbox_score_anchors"
    and n: "n < N" and labs: "\<forall>i<X. at2 labels n i \<in> {- 1, 0, 1}"
  shows "rpn_image_class_loss labels bbox_score_anchors n
           = cross_entropy_rows
               (map (\<lambda>i. [at3 bbox_score_anchors n i 0, at3 bbox_score_anchors n i 1])
                    (sampled labels n))
               (map (\<lambda>i. 1 - \<lfloor>at2 labels n i\<rfloor>) (sampled labels n))
         \<and> rpn_image_class_loss labels bbox_score_anchors n
           = Inr (mean (map (\<lambda>i. nll [at3 bbox_score_anchors n i 0, at3 bbox_score_anchors n i 1]
                                    (if at2 labels n i = 1 then 0 else 1))
                            (sampled labels n)))"
proof -
  let ?s = bbox_score_anchors
  have S: "at2 labels n i \<in> {0, 1}" if "i \<in> set (sampled labels n)" for i
    using that labs by (auto simp add: sampled_def sh(1))
  have rows: "map (\<lambda>i. map (\<lambda>k. at3 ?s n i k) [0..<2]) (sampled labels n)
                = map (\<lambda>i. [at3 ?s n i 0, at3 ?s n i 1]) (sampled labels n)"
    by (simp add: upt2)
  have tg: "map (\<lambda>i. long (1 - at2 labels n i)) (sampled labels n)
              = map (\<lambda>i. 1 - \<lfloor>at2 labels n i\<rfloor>) (sampled labels n)"
    by (rule map_cong) (simp_all add: long_one_minus(1)[OF S])
  have first: "rpn_image_class_loss labels ?s n
           = cross_entropy_rows (map (\<lambda>i. [at3 ?s n i 0, at3 ?s n i 1]) (sampled labels n))
               (map (\<lambda>i. 1 - \<lfloor>at2 labels n i\<rfloor>) (sampled labels n))"
    unfolding rpn_image_class_loss_value[OF sh n] rows tg by (rule refl)
  have t: "\<forall>i\<in>set (sampled labels n).
             long (1 - at2 labels n i) \<noteq> - 100 \<and> 0 \<le> long (1 - at2 labels n i)
             \<and> long (1 - at2 labels n i) < int (length [at3 ?s n i 0, at3 ?s n i 1])"
    using S by (auto simp add: long_one_minus(2))
  have nl: "map (\<lambda>i. nll [at3 ?s n i 0, at3 ?s n i 1] (nat (long (1 - at2 labels n i))))
                (sampled labels n)
            = map (\<lambda>i. nll [at3 ?s n i 0, at3 ?s n i 1] (if at2 labels n i = 1 then 0 else 1))
                (sampled labels n)"
    by (rule map_cong) (auto simp add: long_one_minus(2)[OF S])
  have second: "rpn_image_class_loss labels ?s n
           = Inr (mean (map (\<lambda>i. nll [at3 ?s n i 0, at3 ?s n i 1]
                                    (if at2 labels n i = 1 then 0 else 1))
                            (sampled labels n)))"
    unfolding rpn_image_class_loss_value[OF sh n] rows cross_entropy_rows_map[OF t] nl
    by (rule refl)
  from first second show ?thesis by (rule conjI)
qed

lemma less2: "(i::nat) < 2 \<longleftrightarrow> i = 0 \<or> i = 1"
  by auto

lemma less4: "(i::nat) < 4 \<longleftrightarrow> i = 0 \<or> i = 1 \<or> i = 2 \<or> i = 3"
  by auto

theorem rpn_class_loss_target_columns_witness:
  "rpn_image_class_loss example_labels example_scores 0
     = Inr (mean [nll [2, 0] 0, nll [0, 1] 1])"
proof -
  have sh: "shape example_labels = [1, 3]" "wf_tensor example_labels"
      "shape example_scores = [1, 3, 2]" "wf_tensor example_scores"
    by (simp_all add: example_labels_def example_scores_def wf_tensor_def numel_def)
  have n: "(0::nat) < 1" by simp
  have labs: "\<forall>i<3. at2 example_labels 0 i \<in> {- 1, 0, 1}"
    using example_labels_range by simp
  have "rpn_image_class_loss example_labels example_scores 0
          = Inr (mean (map (\<lambda>i. nll [at3 example_scores 0 i 0, at3 example_scores 0 i 1]
                                   (if at2 example_labels 0 i = 1 then 0 else 1))
                           (sampled example_labels 0)))"
    using rpn_class_loss_target_columns[OF sh n labs] by (rule conjunct2)
  then show ?thesis
    by (simp add: example_sampled) (simp add: at2_def at3_def example_labels_def example_scores_def)
qed

section \<open>Ignored anchors\<close>

text \<open>
  Claim C4. The classification loss reads the scores of the anchors with label
  \<open>\<ge> 0\<close> only, the regression loss the coefficients and targets of the anchors with
  label \<open>1\<close> only: two training passes whose score tensors agree on every anchor with
  label \<open>\<ge> 0\<close> and whose coefficient and target tensors agree on every anchor with
  label \<open>1\<close> have the same three losses (or raise alike). What the tensors hold at
  an anchor labelled \<open>-1\<close> changes neither loss term.
\<close>

theorem rpn_losses_ignore_unsampled:
  assumes lab: "shape labels = [N, X]" "wf_tensor labels"
    and sc: "shape bsa = [N, X, ds]" "wf_tensor bsa" "shape bsa' = [N, X, ds]" "wf_tensor bsa'"
    and co: "shape bca = [N, X, dc]" "wf_tensor bca" "shape bca' = [N, X, dc]" "wf_tensor bca'"
    and tg: "shape tc = [N, X, dc]" "wf_tensor tc" "shape tc' = [N, X, dc]" "wf_tensor tc'"
    and agree_scores:
      "\<forall>n<N. \<forall>i<X. 0 \<le> at2 labels n i \<longrightarrow> (\<forall>k<ds. at3 bsa n i k = at3 bsa' n i k)"
    and agree_coeffs:
      "\<forall>n<N. \<forall>i<X. at2 labels n i = 1 \<longrightarrow>
          (\<forall>k<dc. at3 bca n i k = at3 bca' n i k \<and> at3 tc n i k = at3 tc' n i k)"
  shows "rpn_losses labels bsa bca tc gt_boxes = rpn_losses labels bsa' bca' tc' gt_boxes"
proof -
  have cls: "rpn_image_class_loss labels bsa n = rpn_image_class_loss labels bsa' n"
    if n: "n < N" for n
  proof -
    have "map (\<lambda>i. map (\<lambda>k. at3 bsa n i k) [0..<ds]) (sampled labels n)
            = map (\<lambda>i. map (\<lambda>k. at3 bsa' n i k) [0..<ds]) (sampled labels n)"
      using agree_scores n by (intro map_cong refl) (auto simp add: sampled_def lab(1))
    then show ?thesis
      unfolding rpn_image_class_loss_value[OF lab sc(1,2) n]
        rpn_image_class_loss_value[OF lab sc(3,4) n] by (rule arg_cong2[OF _ refl])
  qed
  have box: "rpn_image_bbox_loss labels bca tc n = rpn_image_bbox_loss labels bca' tc' n"
    if n: "n < N" for n
  proof -
    have m: "map (\<lambda>i. map (\<lambda>k. smooth_l1 (at3 bca n i k - at3 tc n i k)) [0..<dc])
              (foreground labels n)
            = map (\<lambda>i. map (\<lambda>k. smooth_l1 (at3 bca' n i k - at3 tc' n i k)) [0..<dc])
              (foreground labels n)"
      using agree_coeffs n by (intro map_cong refl) (auto simp add: foreground_def lab(1))
    have d: "shape bca ! 2 = dc" "shape bca' ! 2 = dc" by (simp_all add: co(1,3))
    have "spec_image_bbox_loss labels bca tc n = spec_image_bbox_loss labels bca' tc' n"
      unfolding spec_image_bbox_loss_def d m by (rule refl)
    then show ?thesis
      unfolding rpn_image_bbox_loss_value[OF lab co(1,2) tg(1,2) n]
        rpn_image_bbox_loss_value[OF lab co(3,4) tg(3,4) n] by simp
  qed
  have "rpn_loss_loop labels bsa bca tc [0..<N] acc = rpn_loss_loop labels bsa' bca' tc' [0..<N] acc"
    for acc
    by (rule rpn_loss_loop_cong) (simp add: cls box)
  then show ?thesis by (simp add: rpn_losses_def lab(1) size0_def)
qed

theorem rpn_losses_ignore_unsampled_witness:
  "at2 example_labels 0 2 = - 1
   \<and> at3 example_scores 0 2 0 \<noteq> at3 example_scores' 0 2 0
   \<and> at3 example_coeffs 0 2 0 \<noteq> at3 example_coeffs' 0 2 0
   \<and> rpn_losses example_labels example_scores example_coeffs example_targets example_gt_boxes
     = rpn_losses example_labels example_scores' example_coeffs' example_targets'
         example_gt_boxes"
proof -
  have lab: "shape example_labels = [1, 3]" "wf_tensor example_labels"
    by (simp_all add: example_labels_def wf_tensor_def numel_def)
  have sc: "shape example_scores = [1, 3, 2]" "wf_tensor example_scores"
      "shape example_scores' = [1, 3, 2]" "wf_tensor example_scores'"
    by (simp_all add: example_scores_def example_scores'_def wf_tensor_def numel_def)
  have co: "shape example_coeffs = [1, 3, 4]" "wf_tensor example_coeffs"
      "shape example_coeffs' = [1, 3, 4]" "wf_tensor example_coeffs'"
    by (simp_all add: example_coeffs_def example_coeffs'_def wf_tensor_def numel_def)
  have tg: "shape example_targets = [1, 3, 4]" "wf_tensor example_targets"
      "shape example_targets' = [1, 3, 4]" "wf_tensor example_targets'"
    by (simp_all add: example_targets_def example_targets'_def wf_tensor_def numel_def)
  have a: "\<forall>n<1. \<forall>i<3. 0 \<le> at2 example_labels n i \<longrightarrow>
             (\<forall>k<2. at3 example_scores n i k = at3 example_scores' n i k)"
    by (auto simp add: less3 less2 at2_def at3_def example_labels_def example_scores_def
          example_scores'_def)
  have b: "\<forall>n<1. \<forall>i<3. at2 example_labels n i = 1 \<longrightarrow>
             (\<forall>k<4. at3 example_coeffs n i k = at3 example_coeffs' n i k
                   \<and> at3 example_targets n i k = at3 example_targets' n i k)"
    by (auto simp add: less3 less4 at2_def at3_def example_labels_def example_coeffs_def
          example_coeffs'_def example_targets_def example_targets'_def)
  have "rpn_losses example_labels example_scores example_coeffs example_targets example_gt_boxes
     = rpn_losses example_labels example_scores' example_coeffs' example_targets'
         example_gt_boxes"
    by (rule rpn_losses_ignore_unsampled[OF lab sc co tg a b])
  then show ?thesis
    by (simp add: at2_def at3_def example_labels_def example_scores_def example_scores'_def
          example_coeffs_def example_coeffs'_def)
qed

section \<open>The losses inside RPN.forward\<close>

text \<open>
  In training mode the three losses a forward pass returns are those of
  \<open>rpn_losses\<close>, computed from the output of \<^verbatim>\<open>AnchorRefine\<close> and the scores and
  coefficients selected at the kept anchors.
\<close>

lemma RPN_forward_training_losses:
  assumes tr: "training self"
    and ret: "fst (RPN_forward E self feature_map gt_boxes gt_classes) = Inr returned"
  shows "\<exists>out bbox_score bbox_coeff roi_scores rois a1 labels target_coeffs anchors_idx a2
            bsa bca c b l.
           conv_layer E (conv self) feature_map = Inr out
         \<and> head_forward E (conv_bbox_score self) out = Inr bbox_score
         \<and> head_forward E (conv_bbox_coeff self) out = Inr bbox_coeff
         \<and> proposal self (anchors self) bbox_score bbox_coeff = (Inr (roi_scores, rois), a1)
         \<and> anchor_refine self a1 gt_boxes = (Inr (labels, target_coeffs, anchors_idx), a2)
         \<and> index_select_1 bbox_score anchors_idx = Inr bsa
         \<and> index_select_1 bbox_coeff anchors_idx = Inr bca
         \<and> rpn_losses labels bsa bca target_coeffs gt_boxes = Inr (c, b, l)
         \<and> returned ! 3 = Num c \<and> returned ! 4 = Num b \<and> returned ! 5 = Num l"
  using tr ret
  by (auto simp add: RPN_forward_def rpn_training_loss_def Let_def
        split: sum.splits prod.splits if_splits)

section \<open>The head's losses in a training pass\<close>

lemma upt1: "[0..<1] = [0]"
  by simp







end
